theory Spec2Isabelle
  imports Main
begin

section \<open>The Matrix facade of the DAPHNE Python API (daphne/operator/nodes/matrix.py)\<close>

text \<open>
  The Python objects of the operator DAG are kept in an explicit store. A handle
  (\<open>node_id\<close>) stands for one object identity; each object points to its attribute
  dictionary (\<open>__dict__\<close>), and the dictionaries are stored separately, because
  \<^verbatim>\<open>Matrix.__setitem__\<close> rebinds \<^verbatim>\<open>self.__dict__\<close> to the dictionary of another object.
\<close>

subsection \<open>Python values\<close>

type_synonym node_id = nat

text \<open>
  The values that reach the methods of \<^verbatim>\<open>Matrix\<close> as operands, keys and literals.
  \<open>PSlice start stop step\<close> is \<^verbatim>\<open>slice(start, stop, step)\<close> with integer or omitted
  bounds, \<open>PNode h\<close> is a reference to the DAG node object \<open>h\<close>. Floating-point
  literals are not part of the model.
\<close>

datatype pyval =
    PNone
  | PInt int
  | PBool bool
  | PStr string
  | PSlice "int option" "int option" "int option"
  | PNode node_id
  | PTuple "pyval list"

datatype error =
    TypeError string
  | RuntimeError string
  | IndexError string
  | ValueError string

text \<open>Python's truth value of an object (\<^verbatim>\<open>bool(x)\<close>); objects without
  \<^verbatim>\<open>__bool__\<close> and \<^verbatim>\<open>__len__\<close> are true.\<close>

fun truthy :: "pyval \<Rightarrow> bool" where
  "truthy PNone = False"
| "truthy (PInt i) = (i \<noteq> 0)"
| "truthy (PBool b) = b"
| "truthy (PStr s) = (s \<noteq> [])"
| "truthy (PSlice a b c) = True"
| "truthy (PNode h) = True"
| "truthy (PTuple vs) = (vs \<noteq> [])"

text \<open>\<^verbatim>\<open>str(i)\<close> for a Python integer: decimal digits, with a minus sign when negative.\<close>

fun str_nat :: "nat \<Rightarrow> string" where
  "str_nat n = (if n < 10 then [char_of (48 + n)]
                else str_nat (n div 10) @ [char_of (48 + n mod 10)])"

declare str_nat.simps [simp del]

definition str_int :: "int \<Rightarrow> string" where
  "str_int i = (if i < 0 then CHR ''-'' # str_nat (nat (- i)) else str_nat (nat i))"

subsection \<open>Nodes and the object store\<close>

datatype OutputType = MATRIX | SCALAR | FRAME | NONE

text \<open>The class of a node object: the three facades and the plain \<^verbatim>\<open>OperationNode\<close>.\<close>

datatype node_class = MatrixC | ScalarC | FrameC | OperationNodeC

text \<open>A numpy dtype, as far as \<^verbatim>\<open>dtype.kind\<close> and dtype equality see it: the kind
  character and the item size in bytes (native byte order). \<^verbatim>\<open>np.dtype('float32')\<close> is
  \<open>DType CHR ''f'' 4\<close>; the size-less \<^verbatim>\<open>np.dtype('U')\<close> is \<open>DType CHR ''U'' 0\<close>, whereas
  an array of three-character strings has \<open>DType CHR ''U'' 12\<close>. Two such dtypes are
  equal (\<^verbatim>\<open>==\<close>) exactly when kind and item size agree.\<close>

datatype np_dtype = DType (kind: char) (itemsize: nat)

datatype cell = CInt int | CStr string

record ndarray =
  dtype :: np_dtype
  shape :: "nat list"
  elems :: "cell list"

text \<open>
  Modelled from the spec: the attribute dictionary of a DAG node (the class
  \<^verbatim>\<open>OperationNode\<close> is not among the sources). The fields are the constructor arguments
  that \<^verbatim>\<open>Matrix.__init__\<close> passes on (spec section 3: operation, unnamed and named inputs,
  output type, consumer list, bracket flags, local payload), together with the two
  attributes \<^verbatim>\<open>Matrix.__init__\<close> sets itself: \<^verbatim>\<open>__copy\<close> and \<^verbatim>\<open>_np_array\<close>. The
  \<^verbatim>\<open>daphne_context\<close> attribute is left out: no method of the facade reads more of it
  than to hand it on.
\<close>

record node =
  cls :: node_class
  operation :: "string option"
  unnamed_input_nodes :: "pyval list"
  named_input_nodes :: "(string \<times> pyval) list"
  output_type :: OutputType
  is_python_local_data :: bool
  brackets :: bool
  left_brackets :: bool
  consumer_list :: "node_id list"
  copy_flag :: bool
  np_array :: "ndarray option"

record store =
  objs :: "nat list"
  dicts :: "node list"

definition dict_of :: "store \<Rightarrow> node_id \<Rightarrow> nat option" where
  "dict_of s h =
     (if h < length (objs s) \<and> objs s ! h < length (dicts s) then Some (objs s ! h) else None)"

definition state_of :: "store \<Rightarrow> node_id \<Rightarrow> node option" where
  "state_of s h = (case dict_of s h of None \<Rightarrow> None | Some d \<Rightarrow> Some (dicts s ! d))"

definition alloc :: "store \<Rightarrow> node \<Rightarrow> node_id \<times> store" where
  "alloc s nd =
     (length (objs s), s\<lparr>objs := objs s @ [length (dicts s)], dicts := dicts s @ [nd]\<rparr>)"

definition add_consumer :: "store \<Rightarrow> node_id \<Rightarrow> node_id \<Rightarrow> store" where
  "add_consumer s h c =
     (case dict_of s h of
        None \<Rightarrow> s
      | Some d \<Rightarrow>
          s\<lparr>dicts := (dicts s)[d := (dicts s ! d)
                \<lparr>consumer_list := consumer_list (dicts s ! d) @ [c]\<rparr>]\<rparr>)"

fun register :: "store \<Rightarrow> node_id \<Rightarrow> pyval list \<Rightarrow> store" where
  "register s c [] = s"
| "register s c (PNode h # vs) = register (add_consumer s h c) c vs"
| "register s c (v # vs) = register s c vs"

text \<open>
  Modelled from the spec: \<^verbatim>\<open>OperationNode.__init__\<close> (operation_node.py is not among the
  sources). It stores its arguments in the new object and, as spec section 3 says of
  \<open>consumer_list\<close> ("back-references to every node that takes this node as an input")
  and the design notes say of the builder ("maintained whenever an input edge is
  created"), appends the new node to the consumer list of every node among its inputs.
  An omitted \<^verbatim>\<open>consumer_list\<close> argument is an empty list.
\<close>

definition OperationNode_init ::
  "store \<Rightarrow> node_class \<Rightarrow> string option \<Rightarrow> pyval list \<Rightarrow> (string \<times> pyval) list \<Rightarrow> OutputType
     \<Rightarrow> bool \<Rightarrow> bool \<Rightarrow> bool \<Rightarrow> node_id list \<Rightarrow> bool \<Rightarrow> ndarray option \<Rightarrow> node_id \<times> store" where
  "OperationNode_init s c opn unnamed named otype local br lbr consumers cp arr =
     (let (new, s1) = alloc s
            \<lparr>cls = c, operation = opn, unnamed_input_nodes = unnamed,
             named_input_nodes = named, output_type = otype,
             is_python_local_data = local, brackets = br, left_brackets = lbr,
             consumer_list = consumers, copy_flag = cp, np_array = arr\<rparr>
      in (new, register s1 new (unnamed @ map snd named)))"

text \<open>\<^verbatim>\<open>Matrix.__init__\<close>: the output type is \<^verbatim>\<open>OutputType.MATRIX\<close>, and the node counts as
  Python-local data exactly when \<^verbatim>\<open>local_data\<close> is given.\<close>

definition Matrix_init ::
  "store \<Rightarrow> string option \<Rightarrow> pyval list \<Rightarrow> (string \<times> pyval) list \<Rightarrow> ndarray option
     \<Rightarrow> bool \<Rightarrow> bool \<Rightarrow> bool \<Rightarrow> node_id list \<Rightarrow> node_id \<times> store" where
  "Matrix_init s opn unnamed named local_data br lbr cp consumers =
     OperationNode_init s MatrixC opn unnamed named MATRIX (local_data \<noteq> None) br lbr
       consumers cp local_data"

text \<open>The call shape used by every method of the facade:
  \<^verbatim>\<open>Matrix(self.daphne_context, operation, [inputs])\<close>, all other arguments defaulted.\<close>

definition Matrix_new :: "store \<Rightarrow> string option \<Rightarrow> pyval list \<Rightarrow> node_id \<times> store" where
  "Matrix_new s opn unnamed = Matrix_init s opn unnamed [] None False False False []"

text \<open>
  Modelled from the spec: the constructors of the \<^verbatim>\<open>Scalar\<close> and \<^verbatim>\<open>Frame\<close> facades
  (scalar.py and frame.py are not among the sources). By spec section 3 the output type
  "determines which facade wraps the node", so they build nodes of output type Scalar
  and Frame in the way \<^verbatim>\<open>Matrix.__init__\<close> builds one of output type Matrix.
\<close>

definition Scalar_new :: "store \<Rightarrow> string option \<Rightarrow> pyval list \<Rightarrow> node_id \<times> store" where
  "Scalar_new s opn unnamed =
     OperationNode_init s ScalarC opn unnamed [] SCALAR False False False [] False None"

definition Frame_new :: "store \<Rightarrow> string option \<Rightarrow> pyval list \<Rightarrow> node_id \<times> store" where
  "Frame_new s opn unnamed =
     OperationNode_init s FrameC opn unnamed [] FRAME False False False [] False None"

subsection \<open>Methods that build one new node\<close>

definition ok :: "node_id \<times> store \<Rightarrow> (error + node_id) \<times> store" where
  "ok r = (Inr (fst r), snd r)"

text \<open>The comparison methods, lines 153 to 187. The operator tag of \<^verbatim>\<open>__rge__\<close> is
  written with a trailing blank in the source.\<close>

definition dunder_lt :: "store \<Rightarrow> node_id \<Rightarrow> pyval \<Rightarrow> node_id \<times> store" where
  "dunder_lt s self other = Matrix_new s (Some ''<'') [PNode self, other]"

definition dunder_rlt :: "store \<Rightarrow> node_id \<Rightarrow> pyval \<Rightarrow> node_id \<times> store" where
  "dunder_rlt s self other = Matrix_new s (Some ''<'') [other, PNode self]"

definition dunder_le :: "store \<Rightarrow> node_id \<Rightarrow> pyval \<Rightarrow> node_id \<times> store" where
  "dunder_le s self other = Matrix_new s (Some ''<='') [PNode self, other]"

definition dunder_rle :: "store \<Rightarrow> node_id \<Rightarrow> pyval \<Rightarrow> node_id \<times> store" where
  "dunder_rle s self other = Matrix_new s (Some ''<='') [other, PNode self]"

definition dunder_gt :: "store \<Rightarrow> node_id \<Rightarrow> pyval \<Rightarrow> node_id \<times> store" where
  "dunder_gt s self other = Matrix_new s (Some ''>'') [PNode self, other]"

definition dunder_rgt :: "store \<Rightarrow> node_id \<Rightarrow> pyval \<Rightarrow> node_id \<times> store" where
  "dunder_rgt s self other = Matrix_new s (Some ''>'') [other, PNode self]"

definition dunder_ge :: "store \<Rightarrow> node_id \<Rightarrow> pyval \<Rightarrow> node_id \<times> store" where
  "dunder_ge s self other = Matrix_new s (Some ''>='') [PNode self, other]"

definition dunder_rge :: "store \<Rightarrow> node_id \<Rightarrow> pyval \<Rightarrow> node_id \<times> store" where
  "dunder_rge s self other = Matrix_new s (Some ''>= '') [other, PNode self]"

definition dunder_eq :: "store \<Rightarrow> node_id \<Rightarrow> pyval \<Rightarrow> node_id \<times> store" where
  "dunder_eq s self other = Matrix_new s (Some ''=='') [PNode self, other]"

definition dunder_req :: "store \<Rightarrow> node_id \<Rightarrow> pyval \<Rightarrow> node_id \<times> store" where
  "dunder_req s self other = Matrix_new s (Some ''=='') [other, PNode self]"

definition dunder_ne :: "store \<Rightarrow> node_id \<Rightarrow> pyval \<Rightarrow> node_id \<times> store" where
  "dunder_ne s self other = Matrix_new s (Some ''!='') [PNode self, other]"

definition dunder_rne :: "store \<Rightarrow> node_id \<Rightarrow> pyval \<Rightarrow> node_id \<times> store" where
  "dunder_rne s self other = Matrix_new s (Some ''!='') [other, PNode self]"

text \<open>The aggregates, lines 248 to 350. The parameter \<^verbatim>\<open>axis: int = None\<close> is an
  \<open>int option\<close>; a call that leaves the argument out passes the default \<open>None\<close>.\<close>

definition sum_agg :: "store \<Rightarrow> node_id \<Rightarrow> int option \<Rightarrow> node_id \<times> store" where
  "sum_agg s self axis =
     (case axis of
        None \<Rightarrow> Scalar_new s (Some ''sum'') [PNode self]
      | Some a \<Rightarrow> Matrix_new s (Some ''sum'') [PNode self, PInt a])"

definition aggMin :: "store \<Rightarrow> node_id \<Rightarrow> int option \<Rightarrow> node_id \<times> store" where
  "aggMin s self axis =
     (case axis of
        Some a \<Rightarrow> Matrix_new s (Some ''aggMin'') [PNode self, PInt a]
      | None \<Rightarrow> Scalar_new s (Some ''aggMin'') [PNode self])"

definition aggMax :: "store \<Rightarrow> node_id \<Rightarrow> int option \<Rightarrow> node_id \<times> store" where
  "aggMax s self axis =
     (case axis of
        Some a \<Rightarrow> Matrix_new s (Some ''aggMax'') [PNode self, PInt a]
      | None \<Rightarrow> Scalar_new s (Some ''aggMax'') [PNode self])"

definition mean :: "store \<Rightarrow> node_id \<Rightarrow> int option \<Rightarrow> node_id \<times> store" where
  "mean s self axis =
     (case axis of
        Some a \<Rightarrow> Matrix_new s (Some ''mean'') [PNode self, PInt a]
      | None \<Rightarrow> Scalar_new s (Some ''mean'') [PNode self])"

definition var :: "store \<Rightarrow> node_id \<Rightarrow> int option \<Rightarrow> node_id \<times> store" where
  "var s self axis =
     (case axis of
        Some a \<Rightarrow> Matrix_new s (Some ''var'') [PNode self, PInt a]
      | None \<Rightarrow> Scalar_new s (Some ''var'') [PNode self])"

definition stddev :: "store \<Rightarrow> node_id \<Rightarrow> int option \<Rightarrow> node_id \<times> store" where
  "stddev s self axis =
     (case axis of
        Some a \<Rightarrow> Matrix_new s (Some ''stddev'') [PNode self, PInt a]
      | None \<Rightarrow> Scalar_new s (Some ''stddev'') [PNode self])"

text \<open>\<^verbatim>\<open>idxMin\<close> and \<^verbatim>\<open>idxMax\<close> declare \<^verbatim>\<open>axis\<close> without a default. The body guards the
  value \<open>None\<close>; a call that leaves the argument out does not reach the body, Python
  raises a \<^verbatim>\<open>TypeError\<close> for the missing positional argument (\<open>idxMin_noarg\<close>,
  \<open>idxMax_noarg\<close>; the message is the one of CPython 3.10 and later).\<close>

definition idxMin :: "store \<Rightarrow> node_id \<Rightarrow> int option \<Rightarrow> (error + node_id) \<times> store" where
  "idxMin s self axis =
     (case axis of
        None \<Rightarrow> (Inl (RuntimeError ''parameter axis must be provided for idxMin''), s)
      | Some a \<Rightarrow> ok (Scalar_new s (Some ''idxMin'') [PNode self, PInt a]))"

definition idxMax :: "store \<Rightarrow> node_id \<Rightarrow> int option \<Rightarrow> (error + node_id) \<times> store" where
  "idxMax s self axis =
     (case axis of
        None \<Rightarrow> (Inl (RuntimeError ''parameter axis must be provided for idxMax''), s)
      | Some a \<Rightarrow> ok (Scalar_new s (Some ''idxMax'') [PNode self, PInt a]))"

definition idxMin_noarg :: "store \<Rightarrow> node_id \<Rightarrow> (error + node_id) \<times> store" where
  "idxMin_noarg s self =
     (Inl (TypeError (''Matrix.idxMin() missing 1 required positional argument: ''
             @ [CHR 0x27] @ ''axis'' @ [CHR 0x27])), s)"

definition idxMax_noarg :: "store \<Rightarrow> node_id \<Rightarrow> (error + node_id) \<times> store" where
  "idxMax_noarg s self =
     (Inl (TypeError (''Matrix.idxMax() missing 1 required positional argument: ''
             @ [CHR 0x27] @ ''axis'' @ [CHR 0x27])), s)"

text \<open>\<^verbatim>\<open>bin\<close>, lines 486 to 492. The parameters \<^verbatim>\<open>Min\<close> and \<^verbatim>\<open>Max\<close> default to
  \<open>PNone\<close>; the second test is Python's \<^verbatim>\<open>Max and Min\<close>, the truth values of both.\<close>

definition bin :: "store \<Rightarrow> node_id \<Rightarrow> pyval \<Rightarrow> pyval \<Rightarrow> pyval \<Rightarrow> (error + node_id) \<times> store" where
  "bin s self numBins Min' Max' =
     (if (Max' = PNone \<and> Min' \<noteq> PNone) \<or> (Min' = PNone \<and> Max' \<noteq> PNone)
      then (Inl (RuntimeError
              ''bin: both min and max should be set, or both should be None''), s)
      else if truthy Max' \<and> truthy Min'
      then ok (Matrix_new s (Some ''bin'') [PNode self, numBins, Min', Max'])
      else ok (Matrix_new s (Some ''bin'') [PNode self, numBins]))"

definition order ::
  "store \<Rightarrow> node_id \<Rightarrow> int list \<Rightarrow> bool list \<Rightarrow> bool \<Rightarrow> (error + node_id) \<times> store" where
  "order s self colIdxs ascs returnIndexes =
     (if length colIdxs \<noteq> length ascs
      then (Inl (RuntimeError
        ''order: the lists given for parameters colIdxs and ascs must have the same length''), s)
      else ok (Matrix_new s (Some ''order'')
                 ([PNode self] @ map PInt colIdxs @ map PBool ascs @ [PBool returnIndexes])))"

text \<open>\<^verbatim>\<open>asType\<close>, lines 505 to 533, with \<^verbatim>\<open>dtype\<close> and \<^verbatim>\<open>vtype\<close> strings or \<open>None\<close>
  (an f-string renders a string as itself).\<close>

definition invalid_data_type :: "string \<Rightarrow> string" where
  "invalid_data_type d =
     ''invalid data type: '' @ [CHR 0x27] @ d @ [CHR 0x27] @ '', use '' @ [CHR 0x27]
       @ ''matrix'' @ [CHR 0x27] @ '', '' @ [CHR 0x27] @ ''frame'' @ [CHR 0x27] @ '', or ''
       @ [CHR 0x27] @ ''scalar'' @ [CHR 0x27]"

definition asType ::
  "store \<Rightarrow> node_id \<Rightarrow> string option \<Rightarrow> string option \<Rightarrow> (error + node_id) \<times> store" where
  "asType s self dtype' vtype =
     (case (dtype', vtype) of
        (None, None) \<Rightarrow>
          (Inl (RuntimeError ''you must specify the target data type and/or value type''), s)
      | (Some d, None) \<Rightarrow>
          (if d = ''matrix'' then ok (Matrix_new s (Some (''as.'' @ d)) [PNode self])
           else if d = ''frame'' then ok (Frame_new s (Some (''as.'' @ d)) [PNode self])
           else if d = ''scalar'' then ok (Scalar_new s (Some (''as.'' @ d)) [PNode self])
           else (Inl (RuntimeError (invalid_data_type d)), s))
      | (None, Some v) \<Rightarrow> ok (Matrix_new s (Some (''as.'' @ v)) [PNode self])
      | (Some d, Some v) \<Rightarrow>
          (if d = ''matrix''
           then ok (Matrix_new s (Some (''as.'' @ d @ ''<'' @ v @ ''>'')) [PNode self])
           else if d = ''frame''
           then ok (Frame_new s (Some (''as.'' @ d @ ''<'' @ v @ ''>'')) [PNode self])
           else if d = ''scalar''
           then ok (Scalar_new s (Some (''as.'' @ d @ ''<'' @ v @ ''>'')) [PNode self])
           else (Inl (RuntimeError (invalid_data_type d)), s)))"

subsection \<open>Indexing\<close>

definition isinstance_slice :: "pyval \<Rightarrow> bool" where
  "isinstance_slice k = (case k of PSlice a b c \<Rightarrow> True | _ \<Rightarrow> False)"

text \<open>\<^verbatim>\<open>bool\<close> is a subclass of \<^verbatim>\<open>int\<close>.\<close>

definition isinstance_int :: "pyval \<Rightarrow> bool" where
  "isinstance_int k = (case k of PInt i \<Rightarrow> True | PBool b \<Rightarrow> True | _ \<Rightarrow> False)"

definition isinstance_Matrix :: "store \<Rightarrow> pyval \<Rightarrow> bool" where
  "isinstance_Matrix s k =
     (case k of
        PNode h \<Rightarrow> (case state_of s h of Some nd \<Rightarrow> cls nd = MatrixC | None \<Rightarrow> False)
      | _ \<Rightarrow> False)"

text \<open>The index expression of one key component: a slice becomes the string of its
  start and stop around a colon, an omitted bound the empty string; anything else is
  handed on as it is.\<close>

fun index_expr :: "pyval \<Rightarrow> pyval" where
  "index_expr (PSlice start stop step) =
     PStr ((case start of Some a \<Rightarrow> str_int a | None \<Rightarrow> []) @ '':'' @
           (case stop of Some b \<Rightarrow> str_int b | None \<Rightarrow> []))"
| "index_expr k = k"

text \<open>\<^verbatim>\<open>__getitem__\<close>, lines 192 to 212. In the second test the source writes
  \<^verbatim>\<open>not(isinstance(k, slice) or isinstance(k, int), isinstance(k, Matrix))\<close>: the operand of
  \<^verbatim>\<open>not\<close> is a tuple of two booleans, and the test takes its truth value.\<close>

definition dunder_getitem :: "store \<Rightarrow> node_id \<Rightarrow> pyval \<Rightarrow> (error + node_id) \<times> store" where
  "dunder_getitem s self key =
     (case key of
        PTuple [k0, k1] \<Rightarrow>
          (if \<not> truthy (PTuple [PBool (isinstance_slice k0 \<or> isinstance_int k0),
                                 PBool (isinstance_Matrix s k0)]) \<or>
              \<not> truthy (PTuple [PBool (isinstance_slice k1 \<or> isinstance_int k1),
                                 PBool (isinstance_Matrix s k1)])
           then (Inl (TypeError ''keys must be an integer, slice or Matrix''), s)
           else
             (let row_index = index_expr k0;
                  column_index = index_expr k1
              in ok (Matrix_init s None [PNode self, row_index, column_index] [] None
                       True False False [])))
      | _ \<Rightarrow> (Inl (TypeError ''you must specify exactly two dimensions''), s))"

subsection \<open>In-place indexed assignment\<close>

text \<open>The node references held by a value and by a node's attributes.\<close>

fun val_refs :: "pyval \<Rightarrow> node_id list" where
  "val_refs (PNode h) = [h]"
| "val_refs (PTuple vs) = concat (map val_refs vs)"
| "val_refs v = []"

definition node_refs :: "node \<Rightarrow> node_id list" where
  "node_refs nd =
     concat (map val_refs (unnamed_input_nodes nd)) @
     concat (map (\<lambda>kv. val_refs (snd kv)) (named_input_nodes nd)) @
     consumer_list nd"

definition refs :: "store \<Rightarrow> node_id \<Rightarrow> node_id list" where
  "refs s h =
     (case state_of s h of
        None \<Rightarrow> []
      | Some nd \<Rightarrow> filter (\<lambda>x. dict_of s x \<noteq> None) (node_refs nd))"

text \<open>The objects reachable from a root: the root, then round by round the objects
  referenced by those found so far. A round that finds nothing new changes nothing, and
  there are no more objects than \<open>length (objs s)\<close>, so that many rounds reach them all
  (\<open>reachable_closed\<close> below).\<close>

definition expand :: "store \<Rightarrow> node_id list \<Rightarrow> node_id list" where
  "expand s vis = vis @ filter (\<lambda>x. x \<notin> set vis) (remdups (concat (map (refs s) vis)))"

definition reachable :: "store \<Rightarrow> node_id \<Rightarrow> node_id list" where
  "reachable s r =
     ((expand s) ^^ (length (objs s))) (if dict_of s r = None then [] else [r])"

fun index_of :: "node_id list \<Rightarrow> node_id \<Rightarrow> nat option" where
  "index_of [] x = None"
| "index_of (y # ys) x = (if x = y then Some 0 else map_option Suc (index_of ys x))"

text \<open>The renaming of a copy: the \<open>i\<close>-th copied object gets the handle \<open>base + i\<close>.\<close>

definition ren_map :: "node_id list \<Rightarrow> nat \<Rightarrow> node_id \<Rightarrow> node_id" where
  "ren_map vis base x = (case index_of vis x of None \<Rightarrow> x | Some i \<Rightarrow> base + i)"

fun rename_val :: "(node_id \<Rightarrow> node_id) \<Rightarrow> pyval \<Rightarrow> pyval" where
  "rename_val f (PNode h) = PNode (f h)"
| "rename_val f (PTuple vs) = PTuple (map (rename_val f) vs)"
| "rename_val f v = v"

definition rename_node :: "(node_id \<Rightarrow> node_id) \<Rightarrow> node \<Rightarrow> node" where
  "rename_node f nd =
     nd\<lparr>unnamed_input_nodes := map (rename_val f) (unnamed_input_nodes nd),
        named_input_nodes := map (\<lambda>kv. (fst kv, rename_val f (snd kv))) (named_input_nodes nd),
        consumer_list := map f (consumer_list nd)\<rparr>"

fun clone_all :: "store \<Rightarrow> (node_id \<Rightarrow> node_id) \<Rightarrow> node_id list \<Rightarrow> store \<Rightarrow> store" where
  "clone_all s f [] acc = acc"
| "clone_all s f (h # hs) acc =
     clone_all s f hs
       (case state_of s h of
          Some nd \<Rightarrow> snd (alloc acc (rename_node f nd))
        | None \<Rightarrow> acc)"

definition deepcopy_ren :: "store \<Rightarrow> node_id \<Rightarrow> node_id \<Rightarrow> node_id" where
  "deepcopy_ren s r = ren_map (reachable s r) (length (objs s))"

text \<open>\<^verbatim>\<open>copy.deepcopy(self)\<close> of the Python library, for an object without a
  \<^verbatim>\<open>__deepcopy__\<close> of its own: every object reachable from \<open>r\<close> through attribute values
  (inputs and consumer lists) is copied once, each copy gets a dictionary of its own,
  and the references among the copies mirror those among the originals. The result is
  the copy of \<open>r\<close>. The array payload is copied as a value.\<close>

definition deepcopy :: "store \<Rightarrow> node_id \<Rightarrow> node_id \<times> store" where
  "deepcopy s r = (length (objs s), clone_all s (deepcopy_ren s r) (reachable s r) s)"

definition subst_val :: "node_id \<Rightarrow> node_id \<Rightarrow> pyval \<Rightarrow> pyval" where
  "subst_val cur new v = (if v = PNode cur then PNode new else v)"

text \<open>
  Modelled from the spec: \<^verbatim>\<open>OperationNode.update_node_in_input_list(new_node, current_node)\<close>
  (operation_node.py is not among the sources). Spec section 4.2, step (2): "redirect
  that consumer's input reference from the original node to the shadow predecessor".
  \<open>redirect_inputs\<close> is the change to the consumer's attributes.
\<close>

definition redirect_inputs :: "node_id \<Rightarrow> node_id \<Rightarrow> node \<Rightarrow> node" where
  "redirect_inputs current_node new_node nd =
     nd\<lparr>unnamed_input_nodes :=
          map (subst_val current_node new_node) (unnamed_input_nodes nd),
        named_input_nodes :=
          map (\<lambda>kv. (fst kv, subst_val current_node new_node (snd kv)))
            (named_input_nodes nd)\<rparr>"

definition update_node_in_input_list :: "store \<Rightarrow> node_id \<Rightarrow> node_id \<Rightarrow> node_id \<Rightarrow> store" where
  "update_node_in_input_list s consumer new_node current_node =
     (case dict_of s consumer of
        None \<Rightarrow> s
      | Some d \<Rightarrow>
          s\<lparr>dicts := (dicts s)[d := redirect_inputs current_node new_node (dicts s ! d)]\<rparr>)"

text \<open>The loop \<^verbatim>\<open>for consumer in self.consumer_list\<close>.\<close>

fun redirect_all :: "store \<Rightarrow> node_id list \<Rightarrow> node_id \<Rightarrow> node_id \<Rightarrow> store" where
  "redirect_all s [] new_node self = s"
| "redirect_all s (consumer # cs) new_node self =
     redirect_all (update_node_in_input_list s consumer new_node self) cs new_node self"

text \<open>\<^verbatim>\<open>__setitem__\<close>, lines 214 to 243. The last statement builds a further Matrix
  object and makes its dictionary the dictionary of \<^verbatim>\<open>self\<close>.\<close>

definition dunder_setitem ::
  "store \<Rightarrow> node_id \<Rightarrow> pyval \<Rightarrow> pyval \<Rightarrow> (error + unit) \<times> store" where
  "dunder_setitem s self key val =
     (case key of
        PTuple [k0, k1] \<Rightarrow>
          (if \<not> (isinstance_slice k0 \<or> isinstance_int k0) \<or>
              \<not> (isinstance_slice k1 \<or> isinstance_int k1)
           then (Inl (TypeError ''keys must be an integer or a slice''), s)
           else
             (let row_index = index_expr k0;
                  column_index = index_expr k1;
                  (new_node, s1) = deepcopy s self;
                  consumers = (case state_of s1 self of
                                 Some nd \<Rightarrow> consumer_list nd | None \<Rightarrow> []);
                  s2 = redirect_all s1 consumers new_node self;
                  (t, s3) = Matrix_init s2 None
                              [PNode new_node, val, row_index, column_index] [] None
                              False True False []
              in (Inr (), s3\<lparr>objs := (objs s3)[self := objs s3 ! t]\<rparr>)))
      | _ \<Rightarrow> (Inl (TypeError ''you must specify exactly two dimensions''), s))"

subsection \<open>Staging local data when the line is emitted\<close>

datatype file_content =
    Empty_file
  | Truncated_file
  | JsonArray ndarray
  | SaveTxt ndarray string
  | JsonMeta nat nat string

type_synonym filesystem = "string \<Rightarrow> file_content option"

text \<open>\<^verbatim>\<open>getDType\<close>, lines 104 to 126: a chain of dtype comparisons.\<close>

definition getDType :: "np_dtype \<Rightarrow> string" where
  "getDType d_type =
     (if d_type = DType CHR ''f'' 4 then ''f32''
      else if d_type = DType CHR ''f'' 8 then ''f64''
      else if d_type = DType CHR ''i'' 2 then ''si16''
      else if d_type = DType CHR ''i'' 4 then ''si32''
      else if d_type = DType CHR ''i'' 8 then ''si64''
      else if d_type = DType CHR ''u'' 1 then ''ui8''
      else if d_type = DType CHR ''u'' 2 then ''ui16''
      else if d_type = DType CHR ''u'' 4 then ''ui32''
      else if d_type = DType CHR ''u'' 8 then ''ui64''
      else if d_type = DType CHR ''S'' 0 \<or> d_type = DType CHR ''U'' 0 then ''str''
      else ''object'')"

text \<open>The sidecar: \<^verbatim>\<open>open(path, "w")\<close> leaves an empty file, then the dictionary is
  built, where \<^verbatim>\<open>np.shape(a)[0]\<close> and \<^verbatim>\<open>np.shape(a)[1]\<close> raise \<^verbatim>\<open>IndexError\<close> for an
  array of fewer than two dimensions, then it is dumped.\<close>

definition write_meta :: "filesystem \<Rightarrow> string \<Rightarrow> ndarray \<Rightarrow> (error + unit) \<times> filesystem" where
  "write_meta fs path arr =
     (let fs1 = fs(path \<mapsto> Empty_file)
      in if length (shape arr) < 2
         then (Inl (IndexError ''tuple index out of range''), fs1)
         else (Inr (), fs1(path \<mapsto> JsonMeta (shape arr ! 0) (shape arr ! 1)
                                  (getDType (dtype arr)))))"

text \<open>The two library calls that write the data file. \<open>JsonArray a\<close> stands for what
  \<^verbatim>\<open>json.dump(a.tolist(), f)\<close> writes and \<open>SaveTxt a d\<close> for what \<^verbatim>\<open>np.savetxt\<close> writes
  with delimiter \<open>d\<close> (no header is passed). \<^verbatim>\<open>json.dump\<close> raises \<^verbatim>\<open>TypeError\<close> at the
  first \<^verbatim>\<open>bytes\<close> element, that is for an array of kind \<open>S\<close> that has an element, after
  part of the text has been written; \<^verbatim>\<open>np.savetxt\<close> raises \<^verbatim>\<open>ValueError\<close> for an array
  that has no dimension or more than two, before it writes. In both cases the file has
  been opened, so it exists. The cells of the model are integers and strings; an object
  array of values that \<^verbatim>\<open>json\<close> cannot serialise is outside it.\<close>

definition json_dump :: "filesystem \<Rightarrow> string \<Rightarrow> ndarray \<Rightarrow> (error + unit) \<times> filesystem" where
  "json_dump fs path arr =
     (if kind (dtype arr) = CHR ''S'' \<and> elems arr \<noteq> []
      then (Inl (TypeError ''Object of type bytes is not JSON serializable''),
            fs(path \<mapsto> Truncated_file))
      else (Inr (), fs(path \<mapsto> JsonArray arr)))"

definition savetxt ::
  "filesystem \<Rightarrow> string \<Rightarrow> ndarray \<Rightarrow> string \<Rightarrow> (error + unit) \<times> filesystem" where
  "savetxt fs path arr delimiter =
     (if length (shape arr) = 0 \<or> 2 < length (shape arr)
      then (Inl (ValueError (''Expected 1D or 2D array, got '' @ str_nat (length (shape arr))
                   @ ''D array instead'')),
            fs(path \<mapsto> Empty_file))
      else (Inr (), fs(path \<mapsto> SaveTxt arr delimiter)))"

text \<open>\<^verbatim>\<open>code_line\<close>, lines 65 to 99. \<open>TMP_PATH\<close> is the constant of
  \<^verbatim>\<open>daphne.utils.consts\<close>, and \<open>super_line\<close> is the line that
  \<^verbatim>\<open>OperationNode.code_line\<close> returns, after \<^verbatim>\<open>format\<close>; neither is among the sources, so
  both are parameters. An exception in the data file's block leaves the sidecar
  unwritten.\<close>

definition code_line ::
  "string \<Rightarrow> string \<Rightarrow> filesystem \<Rightarrow> node \<Rightarrow> string \<Rightarrow> string list \<Rightarrow> (string \<times> string) list
     \<Rightarrow> (error + string) \<times> filesystem" where
  "code_line TMP_PATH super_line fs self var_name unnamed_input_vars named_input_vars =
     (if copy_flag self
      then (case unnamed_input_vars of
              [] \<Rightarrow> (Inl (IndexError ''list index out of range''), fs)
            | v # vs \<Rightarrow> (Inr (var_name @ ''='' @ v @ '';''), fs))
      else
        (case np_array self of
           Some arr \<Rightarrow>
             (if operation self = Some ''readMatrix''
              then
                (if kind (dtype arr) \<in> {CHR ''U'', CHR ''S'', CHR ''O''}
                 then
                   (let json_file_path = TMP_PATH @ ''/'' @ var_name @ ''.json'';
                        json_meta_file_path = TMP_PATH @ ''/'' @ var_name @ ''.json.meta''
                    in case json_dump fs json_file_path arr of
                         (Inl e, fs1) \<Rightarrow> (Inl e, fs1)
                       | (Inr u, fs1) \<Rightarrow>
                           (case write_meta fs1 json_meta_file_path arr of
                              (Inl e, fs2) \<Rightarrow> (Inl e, fs2)
                            | (Inr u, fs2) \<Rightarrow> (Inr super_line, fs2)))
                 else
                   (let csv_file_path = TMP_PATH @ ''/'' @ var_name @ ''.csv'';
                        csv_meta_file_path = TMP_PATH @ ''/'' @ var_name @ ''.csv.meta''
                    in case savetxt fs csv_file_path arr '','' of
                         (Inl e, fs1) \<Rightarrow> (Inl e, fs1)
                       | (Inr u, fs1) \<Rightarrow>
                           (case write_meta fs1 csv_meta_file_path arr of
                              (Inl e, fs2) \<Rightarrow> (Inl e, fs2)
                            | (Inr u, fs2) \<Rightarrow> (Inr super_line, fs2))))
              else (Inr super_line, fs))
         | None \<Rightarrow> (Inr super_line, fs)))"

subsection \<open>Vocabulary of the properties\<close>

text \<open>A node's attributes apart from its consumer list, which later constructor calls
  extend.\<close>

definition core :: "node \<Rightarrow> node" where
  "core nd = nd\<lparr>consumer_list := []\<rparr>"

text \<open>\<open>h\<close> is a node object that did not exist in \<open>s\<close> and exists in \<open>s'\<close>, with the
  given operation tag and (unnamed) inputs, and with no named inputs.\<close>

definition new_node_with :: "store \<Rightarrow> store \<Rightarrow> node_id \<Rightarrow> string option \<Rightarrow> pyval list \<Rightarrow> bool" where
  "new_node_with s s' h opn ins =
     (state_of s h = None \<and>
      (case state_of s' h of
         None \<Rightarrow> False
       | Some nd \<Rightarrow> operation nd = opn \<and> unnamed_input_nodes nd = ins \<and>
                    named_input_nodes nd = []))"

text \<open>The facade (class) and output kind of a node, and its two bracket flags.\<close>

definition node_kind :: "store \<Rightarrow> node_id \<Rightarrow> (node_class \<times> OutputType) option" where
  "node_kind s h = map_option (\<lambda>nd. (cls nd, output_type nd)) (state_of s h)"

definition node_flags :: "store \<Rightarrow> node_id \<Rightarrow> (bool \<times> bool) option" where
  "node_flags s h = map_option (\<lambda>nd. (brackets nd, left_brackets nd)) (state_of s h)"


text \<open>A small DAG for the examples: node 0 is \<^verbatim>\<open>M = rand(2, 2)\<close>, node 1 is its consumer
  \<^verbatim>\<open>M + 1\<close>.\<close>

definition demo_store :: store where
  "demo_store =
     \<lparr>objs = [0, 1],
      dicts =
        [\<lparr>cls = MatrixC, operation = Some ''rand'', unnamed_input_nodes = [PInt 2, PInt 2],
          named_input_nodes = [], output_type = MATRIX, is_python_local_data = False,
          brackets = False, left_brackets = False, consumer_list = [1],
          copy_flag = False, np_array = None\<rparr>,
         \<lparr>cls = MatrixC, operation = Some ''+'', unnamed_input_nodes = [PNode 0, PInt 1],
          named_input_nodes = [], output_type = MATRIX, is_python_local_data = False,
          brackets = False, left_brackets = False, consumer_list = [],
          copy_flag = False, np_array = None\<rparr>]\<rparr>"

text \<open>A node as \<^verbatim>\<open>from_numpy\<close> builds it for the file transfer of
  \<^verbatim>\<open>np.array([["ab", "cd"]])\<close>: operation \<^verbatim>\<open>readMatrix\<close>, local data of dtype \<^verbatim>\<open><U2\<close>
  (kind \<open>U\<close>, eight bytes per item) and shape (1, 2). The second is the same for
  \<^verbatim>\<open>np.array([[1.5, 2.5]])\<close> of dtype \<^verbatim>\<open>float64\<close>.\<close>

definition str_array :: ndarray where
  "str_array = \<lparr>dtype = DType CHR ''U'' 8, shape = [1, 2], elems = [CStr ''ab'', CStr ''cd'']\<rparr>"

definition local_node :: "ndarray \<Rightarrow> node" where
  "local_node arr =
     \<lparr>cls = MatrixC, operation = Some ''readMatrix'',
      unnamed_input_nodes = [PStr ''{TMP_PATH}/{file_name}.csv''],
      named_input_nodes = [], output_type = MATRIX, is_python_local_data = True,
      brackets = False, left_brackets = False, consumer_list = [],
      copy_flag = False, np_array = Some arr\<rparr>"

definition f64_array :: ndarray where
  "f64_array = \<lparr>dtype = DType CHR ''f'' 8, shape = [1, 2], elems = [CInt 1, CInt 2]\<rparr>"





text \<open>A DAG whose middle node has a node as input: node 0 is \<^verbatim>\<open>X = rand(2, 2)\<close>,
  node 1 is \<^verbatim>\<open>A = X + 1\<close>, node 2 is \<^verbatim>\<open>C = A * 2\<close>.\<close>

definition chain_store :: store where
  "chain_store =
     \<lparr>objs = [0, 1, 2],
      dicts =
        [\<lparr>cls = MatrixC, operation = Some ''rand'', unnamed_input_nodes = [PInt 2, PInt 2],
          named_input_nodes = [], output_type = MATRIX, is_python_local_data = False,
          brackets = False, left_brackets = False, consumer_list = [1],
          copy_flag = False, np_array = None\<rparr>,
         \<lparr>cls = MatrixC, operation = Some ''+'', unnamed_input_nodes = [PNode 0, PInt 1],
          named_input_nodes = [], output_type = MATRIX, is_python_local_data = False,
          brackets = False, left_brackets = False, consumer_list = [2],
          copy_flag = False, np_array = None\<rparr>,
         \<lparr>cls = MatrixC, operation = Some ''*'', unnamed_input_nodes = [PNode 1, PInt 2],
          named_input_nodes = [], output_type = MATRIX, is_python_local_data = False,
          brackets = False, left_brackets = False, consumer_list = [],
          copy_flag = False, np_array = None\<rparr>]\<rparr>"

section \<open>Properties\<close>

subsection \<open>The store under a constructor call\<close>

lemma add_consumer_objs [simp]: "objs (add_consumer s h c) = objs s"
  by (simp add: add_consumer_def split: option.splits)

lemma add_consumer_length [simp]: "length (dicts (add_consumer s h c)) = length (dicts s)"
  by (simp add: add_consumer_def split: option.splits)

lemma add_consumer_core [simp]:
  "core (dicts (add_consumer s h c) ! d) = core (dicts s ! d)"
  by (cases "d < length (dicts s)")
     (auto simp: add_consumer_def core_def dict_of_def nth_list_update split: option.splits)

lemma register_objs [simp]: "objs (register s c vs) = objs s"
  by (induction s c vs rule: register.induct) simp_all

lemma register_length [simp]: "length (dicts (register s c vs)) = length (dicts s)"
  by (induction s c vs rule: register.induct) simp_all

lemma register_core [simp]: "core (dicts (register s c vs) ! d) = core (dicts s ! d)"
  by (induction s c vs rule: register.induct) simp_all

lemma core_fields:
  "cls nd = cls (core nd)" "operation nd = operation (core nd)"
  "unnamed_input_nodes nd = unnamed_input_nodes (core nd)"
  "named_input_nodes nd = named_input_nodes (core nd)"
  "output_type nd = output_type (core nd)"
  "brackets nd = brackets (core nd)" "left_brackets nd = left_brackets (core nd)"
  by (simp_all add: core_def)

lemma OperationNode_init_fst [simp]:
  "fst (OperationNode_init s c opn un nm ot lo br lbr cons cp arr) = length (objs s)"
  by (simp add: OperationNode_init_def alloc_def)

lemma OperationNode_init_objs [simp]:
  "objs (snd (OperationNode_init s c opn un nm ot lo br lbr cons cp arr)) =
     objs s @ [length (dicts s)]"
  by (simp add: OperationNode_init_def alloc_def)

lemma OperationNode_init_length [simp]:
  "length (dicts (snd (OperationNode_init s c opn un nm ot lo br lbr cons cp arr))) =
     Suc (length (dicts s))"
  by (simp add: OperationNode_init_def alloc_def)

lemma OperationNode_init_core_new:
  "core (dicts (snd (OperationNode_init s c opn un nm ot lo br lbr cons cp arr))
           ! length (dicts s)) =
     \<lparr>cls = c, operation = opn, unnamed_input_nodes = un, named_input_nodes = nm,
      output_type = ot, is_python_local_data = lo, brackets = br, left_brackets = lbr,
      consumer_list = [], copy_flag = cp, np_array = arr\<rparr>"
proof -
  have "core (dicts (snd (OperationNode_init s c opn un nm ot lo br lbr cons cp arr))
           ! length (dicts s)) =
        core \<lparr>cls = c, operation = opn, unnamed_input_nodes = un, named_input_nodes = nm,
      output_type = ot, is_python_local_data = lo, brackets = br, left_brackets = lbr,
      consumer_list = cons, copy_flag = cp, np_array = arr\<rparr>"
    by (simp add: OperationNode_init_def alloc_def)
  then show ?thesis by (simp add: core_def)
qed

lemma OperationNode_init_core_old:
  "d < length (dicts s) \<Longrightarrow>
   core (dicts (snd (OperationNode_init s c opn un nm ot lo br lbr cons cp arr)) ! d) =
     core (dicts s ! d)"
  by (simp add: OperationNode_init_def alloc_def nth_append)

lemma state_of_fresh [simp]: "state_of s (length (objs s)) = None"
  by (simp add: state_of_def dict_of_def)

lemma OperationNode_init_state_new:
  "\<exists>nd. state_of (snd (OperationNode_init s c opn un nm ot lo br lbr cons cp arr))
            (length (objs s)) = Some nd \<and>
        core nd =
          \<lparr>cls = c, operation = opn, unnamed_input_nodes = un, named_input_nodes = nm,
           output_type = ot, is_python_local_data = lo, brackets = br, left_brackets = lbr,
           consumer_list = [], copy_flag = cp, np_array = arr\<rparr>"
  by (simp add: state_of_def dict_of_def OperationNode_init_core_new)

lemma OperationNode_init_new:
  assumes "r = OperationNode_init s c opn un [] ot lo br lbr cons cp arr"
  shows "fst r = length (objs s)"
    and "new_node_with s (snd r) (fst r) opn un"
    and "node_kind (snd r) (fst r) = Some (c, ot)"
    and "node_flags (snd r) (fst r) = Some (br, lbr)"
proof -
  obtain nd where nd: "state_of (snd r) (length (objs s)) = Some nd"
    and c: "core nd =
          \<lparr>cls = c, operation = opn, unnamed_input_nodes = un, named_input_nodes = [],
           output_type = ot, is_python_local_data = lo, brackets = br, left_brackets = lbr,
           consumer_list = [], copy_flag = cp, np_array = arr\<rparr>"
    using OperationNode_init_state_new [of s c opn un "[]" ot lo br lbr cons cp arr] assms
    by auto
  show f: "fst r = length (objs s)" using assms by simp
  have fields: "cls nd = c" "operation nd = opn" "unnamed_input_nodes nd = un"
    "named_input_nodes nd = []" "output_type nd = ot" "brackets nd = br"
    "left_brackets nd = lbr"
    using c by (simp_all add: core_fields [of nd])
  show "new_node_with s (snd r) (fst r) opn un"
    using nd fields by (simp add: new_node_with_def f)
  show "node_kind (snd r) (fst r) = Some (c, ot)"
    using nd fields by (simp add: node_kind_def f)
  show "node_flags (snd r) (fst r) = Some (br, lbr)"
    using nd fields by (simp add: node_flags_def f)
qed

lemma Matrix_new_node:
  "fst (Matrix_new s opn un) = length (objs s)"
  "new_node_with s (snd (Matrix_new s opn un)) (length (objs s)) opn un"
  "node_kind (snd (Matrix_new s opn un)) (length (objs s)) = Some (MatrixC, MATRIX)"
  "node_flags (snd (Matrix_new s opn un)) (length (objs s)) = Some (False, False)"
  using OperationNode_init_new
    [OF refl, of s MatrixC opn un MATRIX False False False "[]" False None]
  by (simp_all add: Matrix_new_def Matrix_init_def)

lemma Scalar_new_node:
  "fst (Scalar_new s opn un) = length (objs s)"
  "new_node_with s (snd (Scalar_new s opn un)) (length (objs s)) opn un"
  "node_kind (snd (Scalar_new s opn un)) (length (objs s)) = Some (ScalarC, SCALAR)"
  "node_flags (snd (Scalar_new s opn un)) (length (objs s)) = Some (False, False)"
  using OperationNode_init_new
    [OF refl, of s ScalarC opn un SCALAR False False False "[]" False None]
  by (simp_all add: Scalar_new_def)

lemma Frame_new_node:
  "fst (Frame_new s opn un) = length (objs s)"
  "new_node_with s (snd (Frame_new s opn un)) (length (objs s)) opn un"
  "node_kind (snd (Frame_new s opn un)) (length (objs s)) = Some (FrameC, FRAME)"
  "node_flags (snd (Frame_new s opn un)) (length (objs s)) = Some (False, False)"
  using OperationNode_init_new
    [OF refl, of s FrameC opn un FRAME False False False "[]" False None]
  by (simp_all add: Frame_new_def)

lemma Matrix_init_node:
  "fst (Matrix_init s opn un [] None br lbr cp []) = length (objs s)"
  "new_node_with s (snd (Matrix_init s opn un [] None br lbr cp [])) (length (objs s)) opn un"
  "node_kind (snd (Matrix_init s opn un [] None br lbr cp [])) (length (objs s)) =
     Some (MatrixC, MATRIX)"
  "node_flags (snd (Matrix_init s opn un [] None br lbr cp [])) (length (objs s)) =
     Some (br, lbr)"
  using OperationNode_init_new
    [OF refl, of s MatrixC opn un MATRIX False br lbr "[]" cp None]
  by (simp_all add: Matrix_init_def)

lemma ok_simps [simp]: "fst (ok r) = Inr (fst r)" "snd (ok r) = snd r"
  by (simp_all add: ok_def)

lemma demo_store_length [simp]: "length (objs demo_store) = 2"
  by (simp add: demo_store_def)

subsection \<open>Aggregates\<close>

lemma sum_agg_nodes:
  "fst (sum_agg s self None) = length (objs s)"
  "new_node_with s (snd (sum_agg s self None)) (length (objs s)) (Some ''sum'') [PNode self]"
  "node_kind (snd (sum_agg s self None)) (length (objs s)) = Some (ScalarC, SCALAR)"
  "fst (sum_agg s self (Some a)) = length (objs s)"
  "new_node_with s (snd (sum_agg s self (Some a))) (length (objs s)) (Some ''sum'')
     [PNode self, PInt a]"
  "node_kind (snd (sum_agg s self (Some a))) (length (objs s)) = Some (MatrixC, MATRIX)"
  by (simp_all add: sum_agg_def Scalar_new_node Matrix_new_node)

lemma aggMin_nodes:
  "fst (aggMin s self None) = length (objs s)"
  "new_node_with s (snd (aggMin s self None)) (length (objs s)) (Some ''aggMin'') [PNode self]"
  "node_kind (snd (aggMin s self None)) (length (objs s)) = Some (ScalarC, SCALAR)"
  "fst (aggMin s self (Some a)) = length (objs s)"
  "new_node_with s (snd (aggMin s self (Some a))) (length (objs s)) (Some ''aggMin'')
     [PNode self, PInt a]"
  "node_kind (snd (aggMin s self (Some a))) (length (objs s)) = Some (MatrixC, MATRIX)"
  by (simp_all add: aggMin_def Scalar_new_node Matrix_new_node)

lemma aggMax_nodes:
  "fst (aggMax s self None) = length (objs s)"
  "new_node_with s (snd (aggMax s self None)) (length (objs s)) (Some ''aggMax'') [PNode self]"
  "node_kind (snd (aggMax s self None)) (length (objs s)) = Some (ScalarC, SCALAR)"
  "fst (aggMax s self (Some a)) = length (objs s)"
  "new_node_with s (snd (aggMax s self (Some a))) (length (objs s)) (Some ''aggMax'')
     [PNode self, PInt a]"
  "node_kind (snd (aggMax s self (Some a))) (length (objs s)) = Some (MatrixC, MATRIX)"
  by (simp_all add: aggMax_def Scalar_new_node Matrix_new_node)

lemma mean_nodes:
  "fst (mean s self None) = length (objs s)"
  "new_node_with s (snd (mean s self None)) (length (objs s)) (Some ''mean'') [PNode self]"
  "node_kind (snd (mean s self None)) (length (objs s)) = Some (ScalarC, SCALAR)"
  "fst (mean s self (Some a)) = length (objs s)"
  "new_node_with s (snd (mean s self (Some a))) (length (objs s)) (Some ''mean'')
     [PNode self, PInt a]"
  "node_kind (snd (mean s self (Some a))) (length (objs s)) = Some (MatrixC, MATRIX)"
  by (simp_all add: mean_def Scalar_new_node Matrix_new_node)

lemma var_nodes:
  "fst (var s self None) = length (objs s)"
  "new_node_with s (snd (var s self None)) (length (objs s)) (Some ''var'') [PNode self]"
  "node_kind (snd (var s self None)) (length (objs s)) = Some (ScalarC, SCALAR)"
  "fst (var s self (Some a)) = length (objs s)"
  "new_node_with s (snd (var s self (Some a))) (length (objs s)) (Some ''var'')
     [PNode self, PInt a]"
  "node_kind (snd (var s self (Some a))) (length (objs s)) = Some (MatrixC, MATRIX)"
  by (simp_all add: var_def Scalar_new_node Matrix_new_node)

lemma stddev_nodes:
  "fst (stddev s self None) = length (objs s)"
  "new_node_with s (snd (stddev s self None)) (length (objs s)) (Some ''stddev'') [PNode self]"
  "node_kind (snd (stddev s self None)) (length (objs s)) = Some (ScalarC, SCALAR)"
  "fst (stddev s self (Some a)) = length (objs s)"
  "new_node_with s (snd (stddev s self (Some a))) (length (objs s)) (Some ''stddev'')
     [PNode self, PInt a]"
  "node_kind (snd (stddev s self (Some a))) (length (objs s)) = Some (MatrixC, MATRIX)"
  by (simp_all add: stddev_def Scalar_new_node Matrix_new_node)

lemma idx_nodes:
  "idxMin s self None = (Inl (RuntimeError ''parameter axis must be provided for idxMin''), s)"
  "idxMax s self None = (Inl (RuntimeError ''parameter axis must be provided for idxMax''), s)"
  "fst (idxMin s self (Some a)) = Inr (length (objs s))"
  "new_node_with s (snd (idxMin s self (Some a))) (length (objs s)) (Some ''idxMin'')
     [PNode self, PInt a]"
  "node_kind (snd (idxMin s self (Some a))) (length (objs s)) = Some (ScalarC, SCALAR)"
  "fst (idxMax s self (Some a)) = Inr (length (objs s))"
  "new_node_with s (snd (idxMax s self (Some a))) (length (objs s)) (Some ''idxMax'')
     [PNode self, PInt a]"
  "node_kind (snd (idxMax s self (Some a))) (length (objs s)) = Some (ScalarC, SCALAR)"
  by (simp_all add: idxMin_def idxMax_def Scalar_new_node)

text \<open>
  Claim C2, as the code has it. For each of \<^verbatim>\<open>sum\<close>, \<^verbatim>\<open>aggMin\<close>, \<^verbatim>\<open>aggMax\<close>, \<^verbatim>\<open>mean\<close>,
  \<^verbatim>\<open>var\<close> and \<^verbatim>\<open>stddev\<close>: without an axis the result is a new Scalar node whose
  operation tag is the method name and whose only input is the receiver; with an axis
  the result is a new Matrix node with the same tag and the inputs [receiver, axis].
  \<^verbatim>\<open>idxMin\<close> and \<^verbatim>\<open>idxMax\<close> have no form without an axis: with axis \<open>None\<close> they fail
  and leave the store as it was; with an axis they build a new node tagged with the
  method name whose inputs are [receiver, axis].
\<close>

theorem axis_aggregates:
  "((name, f) \<in> set [(''sum'', sum_agg), (''aggMin'', aggMin), (''aggMax'', aggMax),
                     (''mean'', mean), (''var'', var), (''stddev'', stddev)] \<longrightarrow>
      fst (f s self None) = length (objs s) \<and>
      new_node_with s (snd (f s self None)) (length (objs s)) (Some name) [PNode self] \<and>
      node_kind (snd (f s self None)) (length (objs s)) = Some (ScalarC, SCALAR) \<and>
      fst (f s self (Some a)) = length (objs s) \<and>
      new_node_with s (snd (f s self (Some a))) (length (objs s)) (Some name)
        [PNode self, PInt a] \<and>
      node_kind (snd (f s self (Some a))) (length (objs s)) = Some (MatrixC, MATRIX)) \<and>
   ((name, g) \<in> set [(''idxMin'', idxMin), (''idxMax'', idxMax)] \<longrightarrow>
      isl (fst (g s self None)) \<and> snd (g s self None) = s \<and>
      fst (g s self (Some a)) = Inr (length (objs s)) \<and>
      new_node_with s (snd (g s self (Some a))) (length (objs s)) (Some name)
        [PNode self, PInt a])"
proof (rule conjI; rule impI)
  assume "(name, f) \<in> set [(''sum'', sum_agg), (''aggMin'', aggMin), (''aggMax'', aggMax),
                     (''mean'', mean), (''var'', var), (''stddev'', stddev)]"
  then have "name = ''sum'' \<and> f = sum_agg \<or> name = ''aggMin'' \<and> f = aggMin
    \<or> name = ''aggMax'' \<and> f = aggMax \<or> name = ''mean'' \<and> f = mean
    \<or> name = ''var'' \<and> f = var \<or> name = ''stddev'' \<and> f = stddev"
    by simp
  then show "fst (f s self None) = length (objs s) \<and>
      new_node_with s (snd (f s self None)) (length (objs s)) (Some name) [PNode self] \<and>
      node_kind (snd (f s self None)) (length (objs s)) = Some (ScalarC, SCALAR) \<and>
      fst (f s self (Some a)) = length (objs s) \<and>
      new_node_with s (snd (f s self (Some a))) (length (objs s)) (Some name)
        [PNode self, PInt a] \<and>
      node_kind (snd (f s self (Some a))) (length (objs s)) = Some (MatrixC, MATRIX)"
    by (elim disjE conjE)
       (simp_all only: sum_agg_nodes aggMin_nodes aggMax_nodes mean_nodes var_nodes
          stddev_nodes simp_thms)
next
  assume "(name, g) \<in> set [(''idxMin'', idxMin), (''idxMax'', idxMax)]"
  then have "name = ''idxMin'' \<and> g = idxMin \<or> name = ''idxMax'' \<and> g = idxMax"
    by simp
  then show "isl (fst (g s self None)) \<and> snd (g s self None) = s \<and>
      fst (g s self (Some a)) = Inr (length (objs s)) \<and>
      new_node_with s (snd (g s self (Some a))) (length (objs s)) (Some name)
        [PNode self, PInt a]"
    by (elim disjE conjE) (simp_all add: idx_nodes)
qed

text \<open>The scenario of the spec, \<^verbatim>\<open>M.sum()\<close> and \<^verbatim>\<open>M.sum(0)\<close> on the example DAG, and
  \<^verbatim>\<open>M.idxMin(None)\<close>, \<^verbatim>\<open>M.idxMin(0)\<close>.\<close>

theorem axis_aggregates_witness:
  "(''sum'', sum_agg) \<in> set [(''sum'', sum_agg), (''aggMin'', aggMin), (''aggMax'', aggMax),
                     (''mean'', mean), (''var'', var), (''stddev'', stddev)] \<and>
   fst (sum_agg demo_store 0 None) = 2 \<and>
   new_node_with demo_store (snd (sum_agg demo_store 0 None)) 2 (Some ''sum'') [PNode 0] \<and>
   node_kind (snd (sum_agg demo_store 0 None)) 2 = Some (ScalarC, SCALAR) \<and>
   fst (sum_agg demo_store 0 (Some 0)) = 2 \<and>
   new_node_with demo_store (snd (sum_agg demo_store 0 (Some 0))) 2 (Some ''sum'')
     [PNode 0, PInt 0] \<and>
   node_kind (snd (sum_agg demo_store 0 (Some 0))) 2 = Some (MatrixC, MATRIX) \<and>
   (''idxMin'', idxMin) \<in> set [(''idxMin'', idxMin), (''idxMax'', idxMax)] \<and>
   isl (fst (idxMin demo_store 0 None)) \<and> snd (idxMin demo_store 0 None) = demo_store \<and>
   fst (idxMin demo_store 0 (Some 0)) = Inr 2 \<and>
   new_node_with demo_store (snd (idxMin demo_store 0 (Some 0))) 2 (Some ''idxMin'')
     [PNode 0, PInt 0]"
  using axis_aggregates [where name = "''sum''" and f = sum_agg and s = demo_store
                           and self = 0 and a = 0 and g = idxMin]
        axis_aggregates [where name = "''idxMin''" and f = sum_agg and s = demo_store
                           and self = 0 and a = 0 and g = idxMin]
  by simp

text \<open>Against C2 as it is stated: \<^verbatim>\<open>idxMin\<close> without an axis is an error, not a Scalar
  node, and \<^verbatim>\<open>idxMin\<close> with an axis builds a node of the Scalar facade, not a Matrix
  node.\<close>

theorem axis_aggregates_counterexample:
  "fst (idxMin demo_store 0 None) =
     Inl (RuntimeError ''parameter axis must be provided for idxMin'') \<and>
   node_kind (snd (idxMin demo_store 0 (Some 0))) 2 = Some (ScalarC, SCALAR) \<and>
   node_kind (snd (idxMin demo_store 0 (Some 0))) 2 \<noteq> Some (MatrixC, MATRIX)"
  using idx_nodes(5) [of demo_store 0 0] by (simp add: idx_nodes(1))

text \<open>
  Claim C5. \<^verbatim>\<open>idxMin\<close> and \<^verbatim>\<open>idxMax\<close> called with axis \<open>None\<close> raise the RuntimeError
  "parameter axis must be provided", and called with the argument left out raise
  Python's TypeError for the missing argument; in each case no node is constructed: the
  store that comes back is the store that went in.
\<close>

theorem idx_axis_required:
  "idxMin s self None = (Inl (RuntimeError ''parameter axis must be provided for idxMin''), s) \<and>
   idxMax s self None = (Inl (RuntimeError ''parameter axis must be provided for idxMax''), s) \<and>
   isl (fst (idxMin_noarg s self)) \<and> snd (idxMin_noarg s self) = s \<and>
   isl (fst (idxMax_noarg s self)) \<and> snd (idxMax_noarg s self) = s"
  by (simp add: idxMin_def idxMax_def idxMin_noarg_def idxMax_noarg_def)

theorem idx_axis_required_witness:
  "idxMin demo_store 0 None =
     (Inl (RuntimeError ''parameter axis must be provided for idxMin''), demo_store) \<and>
   idxMax demo_store 0 None =
     (Inl (RuntimeError ''parameter axis must be provided for idxMax''), demo_store) \<and>
   length (objs (snd (idxMin demo_store 0 None))) = 2"
  using idx_axis_required [of demo_store 0] by simp

subsection \<open>Usage errors of bin and order; bounds that are zero\<close>

text \<open>
  Claim C8. \<^verbatim>\<open>bin\<close> fails with the validation error whenever exactly one of \<^verbatim>\<open>Min\<close>
  and \<^verbatim>\<open>Max\<close> is set, and \<^verbatim>\<open>order\<close> fails with its validation error whenever
  \<^verbatim>\<open>colIdxs\<close> and \<^verbatim>\<open>ascs\<close> differ in length; both do so before any node is created:
  the store comes back unchanged.
\<close>

theorem bin_order_usage_errors:
  "((Min' = PNone) \<noteq> (Max' = PNone) \<longrightarrow>
      bin s self numBins Min' Max' =
        (Inl (RuntimeError ''bin: both min and max should be set, or both should be None''),
         s)) \<and>
   (length colIdxs \<noteq> length ascs \<longrightarrow>
      order s self colIdxs ascs returnIndexes =
        (Inl (RuntimeError
           ''order: the lists given for parameters colIdxs and ascs must have the same length''),
         s))"
  by (auto simp: bin_def order_def)

text \<open>\<^verbatim>\<open>M.bin(5, Min=1)\<close> and \<^verbatim>\<open>M.order([0], [], False)\<close> on the example DAG.\<close>

theorem bin_order_usage_errors_witness:
  "(PInt 1 = PNone) \<noteq> (PNone = PNone) \<and>
   bin demo_store 0 (PInt 5) (PInt 1) PNone =
     (Inl (RuntimeError ''bin: both min and max should be set, or both should be None''),
      demo_store) \<and>
   length [0::int] \<noteq> length ([]::bool list) \<and>
   order demo_store 0 [0] [] False =
     (Inl (RuntimeError
        ''order: the lists given for parameters colIdxs and ascs must have the same length''),
      demo_store)"
  using bin_order_usage_errors [of "PInt 1" PNone demo_store 0 "PInt 5" "[0]" "[]" False]
  by simp

lemma bin_falsy_bound:
  assumes "Min' \<noteq> PNone" and "Max' \<noteq> PNone" and "\<not> truthy Min' \<or> \<not> truthy Max'"
  shows "bin s self numBins Min' Max' = ok (Matrix_new s (Some ''bin'') [PNode self, numBins])"
  using assms by (auto simp: bin_def)

lemma bin_both_bounds:
  assumes "truthy Min'" and "truthy Max'"
  shows "bin s self numBins Min' Max' =
           ok (Matrix_new s (Some ''bin'') [PNode self, numBins, Min', Max'])"
proof -
  have "Min' \<noteq> PNone" "Max' \<noteq> PNone" using assms by auto
  then show ?thesis using assms by (simp add: bin_def)
qed

text \<open>
  Claim C10. When \<^verbatim>\<open>bin\<close> is called with both \<^verbatim>\<open>Min\<close> and \<^verbatim>\<open>Max\<close> supplied and one of
  them is 0, no error is raised and the new node's inputs are [self, numBins] only.
\<close>

theorem bin_zero_bound_dropped:
  assumes "Min' \<noteq> PNone" and "Max' \<noteq> PNone" and "Min' = PInt 0 \<or> Max' = PInt 0"
  shows "fst (bin s self numBins Min' Max') = Inr (length (objs s)) \<and>
         new_node_with s (snd (bin s self numBins Min' Max')) (length (objs s))
           (Some ''bin'') [PNode self, numBins] \<and>
         node_kind (snd (bin s self numBins Min' Max')) (length (objs s)) =
           Some (MatrixC, MATRIX)"
proof -
  have "\<not> truthy Min' \<or> \<not> truthy Max'" using assms(3) by auto
  then have "bin s self numBins Min' Max' =
               ok (Matrix_new s (Some ''bin'') [PNode self, numBins])"
    using assms(1,2) by (rule bin_falsy_bound [rotated 2])
  then show ?thesis by (simp add: Matrix_new_node)
qed

text \<open>\<^verbatim>\<open>M.bin(5, Min=0, Max=10)\<close> on the example DAG.\<close>

theorem bin_zero_bound_dropped_witness:
  "PInt 0 \<noteq> PNone \<and> PInt 10 \<noteq> PNone \<and>
   fst (bin demo_store 0 (PInt 5) (PInt 0) (PInt 10)) = Inr 2 \<and>
   new_node_with demo_store (snd (bin demo_store 0 (PInt 5) (PInt 0) (PInt 10))) 2
     (Some ''bin'') [PNode 0, PInt 5]"
  using bin_zero_bound_dropped [of "PInt 0" "PInt 10" demo_store 0 "PInt 5"]
  by simp

subsection \<open>Type conversion\<close>

lemma asType_dtype_only:
  "fst (asType s self (Some ''matrix'') None) = Inr (length (objs s))"
  "new_node_with s (snd (asType s self (Some ''matrix'') None)) (length (objs s))
     (Some ''as.matrix'') [PNode self]"
  "node_kind (snd (asType s self (Some ''matrix'') None)) (length (objs s)) =
     Some (MatrixC, MATRIX)"
  "fst (asType s self (Some ''frame'') None) = Inr (length (objs s))"
  "new_node_with s (snd (asType s self (Some ''frame'') None)) (length (objs s))
     (Some ''as.frame'') [PNode self]"
  "node_kind (snd (asType s self (Some ''frame'') None)) (length (objs s)) =
     Some (FrameC, FRAME)"
  "fst (asType s self (Some ''scalar'') None) = Inr (length (objs s))"
  "new_node_with s (snd (asType s self (Some ''scalar'') None)) (length (objs s))
     (Some ''as.scalar'') [PNode self]"
  "node_kind (snd (asType s self (Some ''scalar'') None)) (length (objs s)) =
     Some (ScalarC, SCALAR)"
  by (simp_all add: asType_def Matrix_new_node Frame_new_node Scalar_new_node)

lemma asType_both:
  "fst (asType s self (Some ''matrix'') (Some v)) = Inr (length (objs s))"
  "new_node_with s (snd (asType s self (Some ''matrix'') (Some v))) (length (objs s))
     (Some (''as.matrix<'' @ v @ ''>'')) [PNode self]"
  "node_kind (snd (asType s self (Some ''matrix'') (Some v))) (length (objs s)) =
     Some (MatrixC, MATRIX)"
  "fst (asType s self (Some ''frame'') (Some v)) = Inr (length (objs s))"
  "new_node_with s (snd (asType s self (Some ''frame'') (Some v))) (length (objs s))
     (Some (''as.frame<'' @ v @ ''>'')) [PNode self]"
  "node_kind (snd (asType s self (Some ''frame'') (Some v))) (length (objs s)) =
     Some (FrameC, FRAME)"
  "fst (asType s self (Some ''scalar'') (Some v)) = Inr (length (objs s))"
  "new_node_with s (snd (asType s self (Some ''scalar'') (Some v))) (length (objs s))
     (Some (''as.scalar<'' @ v @ ''>'')) [PNode self]"
  "node_kind (snd (asType s self (Some ''scalar'') (Some v))) (length (objs s)) =
     Some (ScalarC, SCALAR)"
  using Matrix_new_node [of s "Some (''as.matrix<'' @ v @ ''>'')" "[PNode self]"]
        Frame_new_node [of s "Some (''as.frame<'' @ v @ ''>'')" "[PNode self]"]
        Scalar_new_node [of s "Some (''as.scalar<'' @ v @ ''>'')" "[PNode self]"]
  by (simp_all add: asType_def)

lemma asType_vtype_only:
  "fst (asType s self None (Some v)) = Inr (length (objs s))"
  "new_node_with s (snd (asType s self None (Some v))) (length (objs s))
     (Some (''as.'' @ v)) [PNode self]"
  "node_kind (snd (asType s self None (Some v))) (length (objs s)) = Some (MatrixC, MATRIX)"
  by (simp_all add: asType_def Matrix_new_node)

lemma asType_invalid:
  assumes "d \<noteq> ''matrix''" and "d \<noteq> ''frame''" and "d \<noteq> ''scalar''"
  shows "asType s self (Some d) vtype = (Inl (RuntimeError (invalid_data_type d)), s)"
  using assms by (cases vtype) (simp_all add: asType_def)

text \<open>
  Claim C7. \<^verbatim>\<open>asType\<close> with neither \<^verbatim>\<open>dtype\<close> nor \<^verbatim>\<open>vtype\<close> fails; with a \<^verbatim>\<open>dtype\<close>
  other than matrix, frame and scalar it fails; otherwise it returns a new node of the
  facade that the data kind names (Matrix when only \<^verbatim>\<open>vtype\<close> is given), tagged
  \<open>as.<dtype>\<close>, \<open>as.<vtype>\<close> or \<open>as.<dtype><<vtype>>\<close>, with the receiver as input.
  The failures leave the store unchanged.
\<close>

theorem asType_dispatch:
  "asType s self None None =
     (Inl (RuntimeError ''you must specify the target data type and/or value type''), s) \<and>
   (d \<noteq> ''matrix'' \<and> d \<noteq> ''frame'' \<and> d \<noteq> ''scalar'' \<longrightarrow>
      asType s self (Some d) vtype = (Inl (RuntimeError (invalid_data_type d)), s)) \<and>
   ((d, k) \<in> set [(''matrix'', (MatrixC, MATRIX)), (''frame'', (FrameC, FRAME)),
                  (''scalar'', (ScalarC, SCALAR))] \<longrightarrow>
      fst (asType s self (Some d) None) = Inr (length (objs s)) \<and>
      new_node_with s (snd (asType s self (Some d) None)) (length (objs s))
        (Some (''as.'' @ d)) [PNode self] \<and>
      node_kind (snd (asType s self (Some d) None)) (length (objs s)) = Some k \<and>
      fst (asType s self (Some d) (Some v)) = Inr (length (objs s)) \<and>
      new_node_with s (snd (asType s self (Some d) (Some v))) (length (objs s))
        (Some (''as.'' @ d @ ''<'' @ v @ ''>'')) [PNode self] \<and>
      node_kind (snd (asType s self (Some d) (Some v))) (length (objs s)) = Some k) \<and>
   fst (asType s self None (Some v)) = Inr (length (objs s)) \<and>
   new_node_with s (snd (asType s self None (Some v))) (length (objs s))
     (Some (''as.'' @ v)) [PNode self] \<and>
   node_kind (snd (asType s self None (Some v))) (length (objs s)) = Some (MatrixC, MATRIX)"
proof -
  have none: "asType s self None None =
     (Inl (RuntimeError ''you must specify the target data type and/or value type''), s)"
    by (simp add: asType_def)
  have bad: "d \<noteq> ''matrix'' \<and> d \<noteq> ''frame'' \<and> d \<noteq> ''scalar'' \<longrightarrow>
      asType s self (Some d) vtype = (Inl (RuntimeError (invalid_data_type d)), s)"
    by (simp add: asType_invalid)
  have good: "(d, k) \<in> set [(''matrix'', (MatrixC, MATRIX)), (''frame'', (FrameC, FRAME)),
                  (''scalar'', (ScalarC, SCALAR))] \<longrightarrow>
      fst (asType s self (Some d) None) = Inr (length (objs s)) \<and>
      new_node_with s (snd (asType s self (Some d) None)) (length (objs s))
        (Some (''as.'' @ d)) [PNode self] \<and>
      node_kind (snd (asType s self (Some d) None)) (length (objs s)) = Some k \<and>
      fst (asType s self (Some d) (Some v)) = Inr (length (objs s)) \<and>
      new_node_with s (snd (asType s self (Some d) (Some v))) (length (objs s))
        (Some (''as.'' @ d @ ''<'' @ v @ ''>'')) [PNode self] \<and>
      node_kind (snd (asType s self (Some d) (Some v))) (length (objs s)) = Some k"
  proof (rule impI)
    assume "(d, k) \<in> set [(''matrix'', (MatrixC, MATRIX)), (''frame'', (FrameC, FRAME)),
                  (''scalar'', (ScalarC, SCALAR))]"
    then have "d = ''matrix'' \<and> k = (MatrixC, MATRIX) \<or> d = ''frame'' \<and> k = (FrameC, FRAME)
       \<or> d = ''scalar'' \<and> k = (ScalarC, SCALAR)"
      by simp
    then show "fst (asType s self (Some d) None) = Inr (length (objs s)) \<and>
      new_node_with s (snd (asType s self (Some d) None)) (length (objs s))
        (Some (''as.'' @ d)) [PNode self] \<and>
      node_kind (snd (asType s self (Some d) None)) (length (objs s)) = Some k \<and>
      fst (asType s self (Some d) (Some v)) = Inr (length (objs s)) \<and>
      new_node_with s (snd (asType s self (Some d) (Some v))) (length (objs s))
        (Some (''as.'' @ d @ ''<'' @ v @ ''>'')) [PNode self] \<and>
      node_kind (snd (asType s self (Some d) (Some v))) (length (objs s)) = Some k"
      using asType_dtype_only [of s self] asType_both [of s self v]
      by (elim disjE conjE) simp_all
  qed
  show ?thesis
    using none bad good asType_vtype_only [of s self v] by (intro conjI) assumption+
qed

text \<open>\<^verbatim>\<open>M.asType(dtype="frame", vtype="f32")\<close> and \<^verbatim>\<open>M.asType(dtype="tensor")\<close> on the
  example DAG.\<close>

theorem asType_dispatch_witness:
  "''tensor'' \<noteq> ''matrix'' \<and> ''tensor'' \<noteq> ''frame'' \<and> ''tensor'' \<noteq> ''scalar'' \<and>
   asType demo_store 0 (Some ''tensor'') None =
     (Inl (RuntimeError (invalid_data_type ''tensor'')), demo_store) \<and>
   (''frame'', (FrameC, FRAME)) \<in> set [(''matrix'', (MatrixC, MATRIX)),
      (''frame'', (FrameC, FRAME)), (''scalar'', (ScalarC, SCALAR))] \<and>
   fst (asType demo_store 0 (Some ''frame'') (Some ''f32'')) = Inr 2 \<and>
   new_node_with demo_store (snd (asType demo_store 0 (Some ''frame'') (Some ''f32''))) 2
     (Some ''as.frame<f32>'') [PNode 0] \<and>
   node_kind (snd (asType demo_store 0 (Some ''frame'') (Some ''f32''))) 2 =
     Some (FrameC, FRAME)"
  using asType_dispatch [where d = "''tensor''" and s = demo_store and self = 0
                           and vtype = None and k = "(FrameC, FRAME)" and v = "''f32''"]
        asType_dispatch [where d = "''frame''" and s = demo_store and self = 0
                           and vtype = None and k = "(FrameC, FRAME)" and v = "''f32''"]
  by simp

subsection \<open>Comparison operators\<close>

text \<open>Every comparison method builds a new Matrix node and returns its handle, never
  a boolean. The six direct methods carry the operator as tag with the inputs
  [self, other].\<close>

lemma comparison_nodes:
  assumes "(tag, f) \<in> set [(''<'', dunder_lt), (''<='', dunder_le), (''>'', dunder_gt),
                           (''>='', dunder_ge), (''=='', dunder_eq), (''!='', dunder_ne)]"
  shows "fst (f s self other) = length (objs s) \<and>
         new_node_with s (snd (f s self other)) (length (objs s)) (Some tag)
           [PNode self, other] \<and>
         node_kind (snd (f s self other)) (length (objs s)) = Some (MatrixC, MATRIX)"
proof -
  from assms have "tag = ''<'' \<and> f = dunder_lt \<or> tag = ''<='' \<and> f = dunder_le
      \<or> tag = ''>'' \<and> f = dunder_gt \<or> tag = ''>='' \<and> f = dunder_ge
      \<or> tag = ''=='' \<and> f = dunder_eq \<or> tag = ''!='' \<and> f = dunder_ne"
    by simp
  then show ?thesis
    by (elim disjE conjE)
       (simp_all add: dunder_lt_def dunder_le_def dunder_gt_def dunder_ge_def dunder_eq_def
          dunder_ne_def Matrix_new_node)
qed

text \<open>Five of the six reversed methods carry the operator as tag with the inputs
  [other, self].\<close>

lemma reversed_comparison_nodes:
  assumes "(tag, f) \<in> set [(''<'', dunder_rlt), (''<='', dunder_rle), (''>'', dunder_rgt),
                           (''=='', dunder_req), (''!='', dunder_rne)]"
  shows "fst (f s self other) = length (objs s) \<and>
         new_node_with s (snd (f s self other)) (length (objs s)) (Some tag)
           [other, PNode self] \<and>
         node_kind (snd (f s self other)) (length (objs s)) = Some (MatrixC, MATRIX)"
proof -
  from assms have "tag = ''<'' \<and> f = dunder_rlt \<or> tag = ''<='' \<and> f = dunder_rle
      \<or> tag = ''>'' \<and> f = dunder_rgt \<or> tag = ''=='' \<and> f = dunder_req
      \<or> tag = ''!='' \<and> f = dunder_rne"
    by simp
  then show ?thesis
    by (elim disjE conjE)
       (simp_all add: dunder_rlt_def dunder_rle_def dunder_rgt_def dunder_req_def
          dunder_rne_def Matrix_new_node)
qed

lemma rge_node:
  "fst (dunder_rge s self other) = length (objs s)"
  "new_node_with s (snd (dunder_rge s self other)) (length (objs s)) (Some ''>= '')
     [other, PNode self]"
  "node_kind (snd (dunder_rge s self other)) (length (objs s)) = Some (MatrixC, MATRIX)"
  by (simp_all add: dunder_rge_def Matrix_new_node)

lemma new_node_with_tag_unique:
  assumes "new_node_with s s' h opn ins" and "new_node_with s s' h opn' ins'"
  shows "opn = opn' \<and> ins = ins'"
  using assms by (auto simp: new_node_with_def split: option.splits)

text \<open>
  Claim C9 at \<^verbatim>\<open>M.__rge__(5)\<close> on the example DAG: the node that comes back has the
  inputs [5, M] and the operation tag \<open>>=\<close> followed by a blank, which is not the tag
  \<open>>=\<close> of the comparison operator.
\<close>

theorem rge_tag_trailing_blank:
  "fst (dunder_rge demo_store 0 (PInt 5)) = 2 \<and>
   new_node_with demo_store (snd (dunder_rge demo_store 0 (PInt 5))) 2 (Some ''>= '')
     [PInt 5, PNode 0] \<and>
   \<not> new_node_with demo_store (snd (dunder_rge demo_store 0 (PInt 5))) 2 (Some ''>='')
     [PInt 5, PNode 0]"
proof -
  have a: "new_node_with demo_store (snd (dunder_rge demo_store 0 (PInt 5))) 2 (Some ''>= '')
     [PInt 5, PNode 0]"
    using rge_node(2) [of demo_store 0 "PInt 5"] by simp
  have "\<not> new_node_with demo_store (snd (dunder_rge demo_store 0 (PInt 5))) 2 (Some ''>='')
     [PInt 5, PNode 0]"
  proof
    assume "new_node_with demo_store (snd (dunder_rge demo_store 0 (PInt 5))) 2 (Some ''>='')
     [PInt 5, PNode 0]"
    from new_node_with_tag_unique [OF a this] show False by simp
  qed
  with a show ?thesis by (simp add: rge_node(1))
qed

theorem rge_tag_trailing_blank_witness:
  "new_node_with demo_store (snd (dunder_rge demo_store 0 (PInt 5))) 2 (Some ''>= '')
     [PInt 5, PNode 0]"
  using rge_tag_trailing_blank by simp

subsection \<open>Indexing keys\<close>

lemma str_int_examples:
  "str_int 0 = ''0''" "str_int 1 = ''1''" "str_int 3 = ''3''" "str_int 42 = ''42''"
  "str_int (- 7) = ''-7''" "str_int 120 = ''120''"
  by code_simp+

text \<open>A key that is not a tuple of two components is refused, on read and on write,
  and the store stays as it was.\<close>

lemma getitem_wrong_arity:
  assumes "\<forall>k0 k1. key \<noteq> PTuple [k0, k1]"
  shows "dunder_getitem s self key =
           (Inl (TypeError ''you must specify exactly two dimensions''), s)"
  using assms by (auto simp: dunder_getitem_def split: pyval.splits list.splits)

lemma setitem_wrong_arity:
  assumes "\<forall>k0 k1. key \<noteq> PTuple [k0, k1]"
  shows "dunder_setitem s self key val =
           (Inl (TypeError ''you must specify exactly two dimensions''), s)"
  using assms by (auto simp: dunder_setitem_def split: pyval.splits list.splits)

text \<open>On write, a component that is neither an integer nor a slice is refused.\<close>

lemma setitem_wrong_component:
  assumes "\<not> (isinstance_slice k0 \<or> isinstance_int k0) \<or>
           \<not> (isinstance_slice k1 \<or> isinstance_int k1)"
  shows "dunder_setitem s self (PTuple [k0, k1]) val =
           (Inl (TypeError ''keys must be an integer or a slice''), s)"
  using assms by (auto simp: dunder_setitem_def)

lemma setitem_node_index_refused:
  "dunder_setitem s self (PTuple [PNode h, k1]) val =
     (Inl (TypeError ''keys must be an integer or a slice''), s)"
  by (rule setitem_wrong_component) (simp add: isinstance_slice_def isinstance_int_def)

text \<open>On read, the test of the components never fails: whatever the two components
  are, the bracket node is built.\<close>

lemma getitem_any_components:
  "dunder_getitem s self (PTuple [k0, k1]) =
     ok (Matrix_init s None [PNode self, index_expr k0, index_expr k1] [] None
           True False False [])"
  by (simp add: dunder_getitem_def)

text \<open>
  Claim C3 at \<^verbatim>\<open>M["a", 0]\<close> on the example DAG: the string component, which is not an
  integer, a slice or a Matrix node, raises no type error on read; a new bracket node
  with the inputs [M, "a", 0] comes back.
\<close>

theorem getitem_string_component_accepted:
  "\<not> (isinstance_slice (PStr ''a'') \<or> isinstance_int (PStr ''a'') \<or>
       isinstance_Matrix demo_store (PStr ''a'')) \<and>
   fst (dunder_getitem demo_store 0 (PTuple [PStr ''a'', PInt 0])) = Inr 2 \<and>
   new_node_with demo_store (snd (dunder_getitem demo_store 0 (PTuple [PStr ''a'', PInt 0])))
     2 None [PNode 0, PStr ''a'', PInt 0]"
  using Matrix_init_node(1,2)
          [of demo_store None "[PNode 0, PStr ''a'', PInt 0]" True False False]
  by (simp add: getitem_any_components isinstance_slice_def isinstance_int_def
        isinstance_Matrix_def)

theorem getitem_string_component_accepted_witness:
  "fst (dunder_getitem demo_store 0 (PTuple [PStr ''a'', PInt 0])) = Inr 2"
  using getitem_string_component_accepted by simp

text \<open>
  Claim C4. For a key of two components, each an integer, a slice or a Matrix node, the
  result of a read is a new Matrix node without operation tag, with \<open>is_brackets\<close> set,
  and with the inputs [receiver, row index expression, column index expression]; the
  expression of a slice is the one string of start, colon and stop, an omitted bound
  being empty, and the expression of an integer is the integer.
\<close>

theorem getitem_bracket_node:
  assumes "isinstance_slice k0 \<or> isinstance_int k0 \<or> isinstance_Matrix s k0"
      and "isinstance_slice k1 \<or> isinstance_int k1 \<or> isinstance_Matrix s k1"
  shows "\<exists>row col.
           fst (dunder_getitem s self (PTuple [k0, k1])) = Inr (length (objs s)) \<and>
           new_node_with s (snd (dunder_getitem s self (PTuple [k0, k1]))) (length (objs s))
             None [PNode self, row, col] \<and>
           node_kind (snd (dunder_getitem s self (PTuple [k0, k1]))) (length (objs s)) =
             Some (MatrixC, MATRIX) \<and>
           node_flags (snd (dunder_getitem s self (PTuple [k0, k1]))) (length (objs s)) =
             Some (True, False) \<and>
           (case k0 of
              PSlice start stop step \<Rightarrow>
                row = PStr ((case start of None \<Rightarrow> [] | Some a \<Rightarrow> str_int a) @ '':'' @
                            (case stop of None \<Rightarrow> [] | Some b \<Rightarrow> str_int b))
            | PInt i \<Rightarrow> row = PInt i
            | _ \<Rightarrow> row = k0) \<and>
           (case k1 of
              PSlice start stop step \<Rightarrow>
                col = PStr ((case start of None \<Rightarrow> [] | Some a \<Rightarrow> str_int a) @ '':'' @
                            (case stop of None \<Rightarrow> [] | Some b \<Rightarrow> str_int b))
            | PInt i \<Rightarrow> col = PInt i
            | _ \<Rightarrow> col = k1)"
proof (intro exI conjI)
  show "fst (dunder_getitem s self (PTuple [k0, k1])) = Inr (length (objs s))"
    by (simp add: getitem_any_components Matrix_init_node)
  show "new_node_with s (snd (dunder_getitem s self (PTuple [k0, k1]))) (length (objs s))
             None [PNode self, index_expr k0, index_expr k1]"
    by (simp add: getitem_any_components Matrix_init_node)
  show "node_kind (snd (dunder_getitem s self (PTuple [k0, k1]))) (length (objs s)) =
             Some (MatrixC, MATRIX)"
    by (simp add: getitem_any_components Matrix_init_node)
  show "node_flags (snd (dunder_getitem s self (PTuple [k0, k1]))) (length (objs s)) =
             Some (True, False)"
    by (simp add: getitem_any_components Matrix_init_node)
  show "case k0 of
          PSlice start stop step \<Rightarrow>
            index_expr k0 =
              PStr ((case start of None \<Rightarrow> [] | Some a \<Rightarrow> str_int a) @ '':'' @
                    (case stop of None \<Rightarrow> [] | Some b \<Rightarrow> str_int b))
        | PInt i \<Rightarrow> index_expr k0 = PInt i
        | _ \<Rightarrow> index_expr k0 = k0"
    by (cases k0) (simp_all split: option.splits)
  show "case k1 of
          PSlice start stop step \<Rightarrow>
            index_expr k1 =
              PStr ((case start of None \<Rightarrow> [] | Some a \<Rightarrow> str_int a) @ '':'' @
                    (case stop of None \<Rightarrow> [] | Some b \<Rightarrow> str_int b))
        | PInt i \<Rightarrow> index_expr k1 = PInt i
        | _ \<Rightarrow> index_expr k1 = k1"
    by (cases k1) (simp_all split: option.splits)
qed

text \<open>The scenario of the spec: \<^verbatim>\<open>M[1:3, 0]\<close> yields the row index string \<open>1:3\<close> and the
  column index literal 0.\<close>

theorem getitem_bracket_node_witness:
  "(isinstance_slice (PSlice (Some 1) (Some 3) None) \<or>
      isinstance_int (PSlice (Some 1) (Some 3) None) \<or>
      isinstance_Matrix demo_store (PSlice (Some 1) (Some 3) None)) \<and>
   (isinstance_slice (PInt 0) \<or> isinstance_int (PInt 0) \<or>
      isinstance_Matrix demo_store (PInt 0)) \<and>
   fst (dunder_getitem demo_store 0 (PTuple [PSlice (Some 1) (Some 3) None, PInt 0])) =
     Inr 2 \<and>
   new_node_with demo_store
     (snd (dunder_getitem demo_store 0 (PTuple [PSlice (Some 1) (Some 3) None, PInt 0])))
     2 None [PNode 0, PStr ''1:3'', PInt 0] \<and>
   node_flags
     (snd (dunder_getitem demo_store 0 (PTuple [PSlice (Some 1) (Some 3) None, PInt 0])))
     2 = Some (True, False)"
proof -
  have h0: "isinstance_slice (PSlice (Some 1) (Some 3) None) \<or>
      isinstance_int (PSlice (Some 1) (Some 3) None) \<or>
      isinstance_Matrix demo_store (PSlice (Some 1) (Some 3) None)"
    by (simp add: isinstance_slice_def)
  have h1: "isinstance_slice (PInt 0) \<or> isinstance_int (PInt 0) \<or>
      isinstance_Matrix demo_store (PInt 0)"
    by (simp add: isinstance_int_def)
  from getitem_bracket_node [OF h0 h1, of 0] obtain row col where
    r: "fst (dunder_getitem demo_store 0 (PTuple [PSlice (Some 1) (Some 3) None, PInt 0])) =
          Inr (length (objs demo_store))"
       "new_node_with demo_store
          (snd (dunder_getitem demo_store 0 (PTuple [PSlice (Some 1) (Some 3) None, PInt 0])))
          (length (objs demo_store)) None [PNode 0, row, col]"
       "node_flags
          (snd (dunder_getitem demo_store 0 (PTuple [PSlice (Some 1) (Some 3) None, PInt 0])))
          (length (objs demo_store)) = Some (True, False)"
       "row = PStr (str_int 1 @ '':'' @ str_int 3)" "col = PInt 0"
    by auto
  have "row = PStr ''1:3''" using r(4) by (simp add: str_int_examples)
  with r h0 h1 show ?thesis by simp
qed

subsection \<open>Staging of local data\<close>

text \<open>The table of \<^verbatim>\<open>getDType\<close> for the nine numeric dtypes, and its fallback.\<close>

lemma getDType_table:
  "getDType (DType CHR ''f'' 4) = ''f32''" "getDType (DType CHR ''f'' 8) = ''f64''"
  "getDType (DType CHR ''i'' 2) = ''si16''" "getDType (DType CHR ''i'' 4) = ''si32''"
  "getDType (DType CHR ''i'' 8) = ''si64''" "getDType (DType CHR ''u'' 1) = ''ui8''"
  "getDType (DType CHR ''u'' 2) = ''ui16''" "getDType (DType CHR ''u'' 4) = ''ui32''"
  "getDType (DType CHR ''u'' 8) = ''ui64''"
  by (simp_all add: getDType_def)

lemma getDType_unmapped:
  assumes "d \<notin> set [DType CHR ''f'' 4, DType CHR ''f'' 8, DType CHR ''i'' 2, DType CHR ''i'' 4,
                     DType CHR ''i'' 8, DType CHR ''u'' 1, DType CHR ''u'' 2, DType CHR ''u'' 4,
                     DType CHR ''u'' 8, DType CHR ''S'' 0, DType CHR ''U'' 0]"
  shows "getDType d = ''object''"
  using assms by (simp add: getDType_def)

text \<open>Only the two size-less string dtypes reach the tag \<open>str\<close>; the dtype of an array
  that holds strings has a positive item size and falls through to \<open>object\<close>.\<close>

lemma getDType_str_sizeless:
  "getDType (DType CHR ''S'' 0) = ''str''" "getDType (DType CHR ''U'' 0) = ''str''"
  by (simp_all add: getDType_def)

lemma getDType_string_kind:
  assumes "k = CHR ''U'' \<or> k = CHR ''S''" and "0 < n"
  shows "getDType (DType k n) = ''object''"
  using assms by (auto simp: getDType_def)

text \<open>The two staging paths of \<^verbatim>\<open>code_line\<close> for an array of at least two
  dimensions: which files are written, and what the sidecar holds.\<close>

lemma code_line_text_path:
  assumes "\<not> copy_flag nd" and "np_array nd = Some arr"
      and "operation nd = Some ''readMatrix''"
      and "kind (dtype arr) \<in> {CHR ''U'', CHR ''S'', CHR ''O''}"
      and "kind (dtype arr) \<noteq> CHR ''S'' \<or> elems arr = []"
      and "2 \<le> length (shape arr)"
  shows "code_line tmp line fs nd v uv nv =
           (Inr line,
            fs(tmp @ ''/'' @ v @ ''.json'' \<mapsto> JsonArray arr,
               tmp @ ''/'' @ v @ ''.json.meta'' \<mapsto>
                 JsonMeta (shape arr ! 0) (shape arr ! 1) (getDType (dtype arr))))"
  using assms by (auto simp: code_line_def json_dump_def write_meta_def Let_def)

lemma code_line_numeric_path:
  assumes "\<not> copy_flag nd" and "np_array nd = Some arr"
      and "operation nd = Some ''readMatrix''"
      and "kind (dtype arr) \<notin> {CHR ''U'', CHR ''S'', CHR ''O''}"
      and "length (shape arr) = 2"
  shows "code_line tmp line fs nd v uv nv =
           (Inr line,
            fs(tmp @ ''/'' @ v @ ''.csv'' \<mapsto> SaveTxt arr '','',
               tmp @ ''/'' @ v @ ''.csv.meta'' \<mapsto>
                 JsonMeta (shape arr ! 0) (shape arr ! 1) (getDType (dtype arr))))"
  using assms by (simp add: code_line_def savetxt_def write_meta_def Let_def)

text \<open>The failures of the two library calls: the data file exists, truncated or
  empty, and no sidecar is written.\<close>

lemma code_line_bytes_array:
  assumes "\<not> copy_flag nd" and "np_array nd = Some arr"
      and "operation nd = Some ''readMatrix''"
      and "kind (dtype arr) = CHR ''S''" and "elems arr \<noteq> []"
  shows "code_line tmp line fs nd v uv nv =
           (Inl (TypeError ''Object of type bytes is not JSON serializable''),
            fs(tmp @ ''/'' @ v @ ''.json'' \<mapsto> Truncated_file))"
  using assms by (simp add: code_line_def json_dump_def Let_def)

lemma code_line_numeric_wrong_dimension:
  assumes "\<not> copy_flag nd" and "np_array nd = Some arr"
      and "operation nd = Some ''readMatrix''"
      and "kind (dtype arr) \<notin> {CHR ''U'', CHR ''S'', CHR ''O''}"
      and "length (shape arr) = 0 \<or> 2 < length (shape arr)"
  shows "isl (fst (code_line tmp line fs nd v uv nv)) \<and>
         snd (code_line tmp line fs nd v uv nv) =
           fs(tmp @ ''/'' @ v @ ''.csv'' \<mapsto> Empty_file)"
  using assms by (auto simp: code_line_def savetxt_def Let_def)

lemma code_line_f64_example:
  "snd (code_line ''tmp'' ''V1=readMatrix(tmp/V1.csv);'' Map.empty (local_node f64_array)
          ''V1'' [] []) ''tmp/V1.csv.meta'' = Some (JsonMeta 1 2 ''f64'')"
  by (simp add: code_line_numeric_path [where arr = f64_array] local_node_def f64_array_def
        getDType_table)

text \<open>
  Claim C6 at a Matrix node that holds \<^verbatim>\<open>np.array([["ab", "cd"]])\<close> and is emitted as
  \<^verbatim>\<open>readMatrix\<close>: the array goes to the JSON file and its sidecar, as the claim says,
  but the sidecar's \<open>valueType\<close> is \<open>object\<close>, not \<open>str\<close>, although the dtype is of
  string kind.
\<close>

theorem string_array_value_type_object:
  "kind (dtype str_array) = CHR ''U'' \<and>
   fst (code_line ''tmp'' ''V1=readMatrix(tmp/V1.csv);'' Map.empty (local_node str_array)
          ''V1'' [] []) = Inr ''V1=readMatrix(tmp/V1.csv);'' \<and>
   snd (code_line ''tmp'' ''V1=readMatrix(tmp/V1.csv);'' Map.empty (local_node str_array)
          ''V1'' [] []) ''tmp/V1.json'' = Some (JsonArray str_array) \<and>
   snd (code_line ''tmp'' ''V1=readMatrix(tmp/V1.csv);'' Map.empty (local_node str_array)
          ''V1'' [] []) ''tmp/V1.json.meta'' = Some (JsonMeta 1 2 ''object'') \<and>
   snd (code_line ''tmp'' ''V1=readMatrix(tmp/V1.csv);'' Map.empty (local_node str_array)
          ''V1'' [] []) ''tmp/V1.json.meta'' \<noteq> Some (JsonMeta 1 2 ''str'')"
proof -
  have k: "kind (dtype str_array) \<in> {CHR ''U'', CHR ''S'', CHR ''O''}"
    by (simp add: str_array_def)
  have v: "getDType (dtype str_array) = ''object''"
    by (simp add: str_array_def getDType_string_kind)
  have "code_line ''tmp'' ''V1=readMatrix(tmp/V1.csv);'' Map.empty (local_node str_array)
          ''V1'' [] [] =
        (Inr ''V1=readMatrix(tmp/V1.csv);'',
         [''tmp'' @ ''/'' @ ''V1'' @ ''.json'' \<mapsto> JsonArray str_array,
          ''tmp'' @ ''/'' @ ''V1'' @ ''.json.meta'' \<mapsto>
            JsonMeta (shape str_array ! 0) (shape str_array ! 1) (getDType (dtype str_array))])"
    by (rule code_line_text_path [OF _ _ _ k]) (simp_all add: local_node_def str_array_def)
  then show ?thesis using v by (simp add: str_array_def)
qed

theorem string_array_value_type_object_witness:
  "snd (code_line ''tmp'' ''V1=readMatrix(tmp/V1.csv);'' Map.empty (local_node str_array)
          ''V1'' [] []) ''tmp/V1.json.meta'' = Some (JsonMeta 1 2 ''object'')"
  using string_array_value_type_object by simp

subsection \<open>In-place indexed assignment\<close>

text \<open>The copy only appends to the store.\<close>

lemma alloc_simps [simp]:
  "fst (alloc s nd) = length (objs s)"
  "objs (snd (alloc s nd)) = objs s @ [length (dicts s)]"
  "dicts (snd (alloc s nd)) = dicts s @ [nd]"
  by (simp_all add: alloc_def)

lemma clone_all_append:
  "\<exists>os ds. objs (clone_all s f hs acc) = objs acc @ os \<and>
           dicts (clone_all s f hs acc) = dicts acc @ ds"
proof (induction hs arbitrary: acc)
  case Nil
  then show ?case by simp
next
  case (Cons h hs)
  show ?case
  proof (cases "state_of s h")
    case None
    then show ?thesis using Cons.IH [of acc] by simp
  next
    case (Some nd)
    from Cons.IH [of "snd (alloc acc (rename_node f nd))"] obtain os ds where
      "objs (clone_all s f hs (snd (alloc acc (rename_node f nd)))) =
         objs (snd (alloc acc (rename_node f nd))) @ os"
      "dicts (clone_all s f hs (snd (alloc acc (rename_node f nd)))) =
         dicts (snd (alloc acc (rename_node f nd))) @ ds"
      by blast
    then show ?thesis using Some by simp
  qed
qed

lemma expand_funpow_prefix: "\<exists>ys. ((expand s) ^^ k) vis = vis @ ys"
proof (induction k)
  case 0
  then show ?case by simp
next
  case (Suc k)
  then obtain ys where ys: "((expand s) ^^ k) vis = vis @ ys" by blast
  have "((expand s) ^^ Suc k) vis = expand s (vis @ ys)" using ys by simp
  also have "\<dots> = vis @ (ys @ filter (\<lambda>x. x \<notin> set (vis @ ys))
                              (remdups (concat (map (refs s) (vis @ ys)))))"
    by (simp add: expand_def)
  finally show ?case by blast
qed

lemma reachable_root:
  assumes "dict_of s r \<noteq> None"
  shows "\<exists>ys. reachable s r = r # ys"
  using assms expand_funpow_prefix [where s = s and k = "length (objs s)" and vis = "[r]"]
  by (auto simp: reachable_def)


lemma state_of_Some_dict:
  assumes "state_of s h = Some nd"
  shows "dict_of s h \<noteq> None" "h < length (objs s)" "objs s ! h < length (dicts s)"
        "dicts s ! (objs s ! h) = nd"
  using assms by (auto simp: state_of_def dict_of_def split: option.splits if_splits)

lemma deepcopy_store:
  assumes "state_of s r = Some a"
  shows "fst (deepcopy s r) = length (objs s)"
    and "\<exists>os ds. objs (snd (deepcopy s r)) = objs s @ length (dicts s) # os \<and>
                 dicts (snd (deepcopy s r)) =
                   dicts s @ rename_node (deepcopy_ren s r) a # ds"
proof -
  show "fst (deepcopy s r) = length (objs s)" by (simp add: deepcopy_def)
  from reachable_root [OF state_of_Some_dict(1) [OF assms]] obtain ys where
    ys: "reachable s r = r # ys" by blast
  let ?f = "deepcopy_ren s r"
  let ?s0 = "snd (alloc s (rename_node ?f a))"
  have eq: "snd (deepcopy s r) = clone_all s ?f ys ?s0"
    using ys assms by (simp add: deepcopy_def)
  from clone_all_append [of s ?f ys ?s0] obtain os ds where
    "objs (clone_all s ?f ys ?s0) = objs ?s0 @ os"
    "dicts (clone_all s ?f ys ?s0) = dicts ?s0 @ ds"
    by blast
  then show "\<exists>os ds. objs (snd (deepcopy s r)) = objs s @ length (dicts s) # os \<and>
                 dicts (snd (deepcopy s r)) =
                   dicts s @ rename_node (deepcopy_ren s r) a # ds"
    using eq by simp
qed

text \<open>The redirection loop changes the dictionaries of the consumers, and nothing
  else.\<close>

lemma update_node_objs [simp]:
  "objs (update_node_in_input_list s c n cur) = objs s"
  by (simp add: update_node_in_input_list_def split: option.splits)

lemma update_node_length [simp]:
  "length (dicts (update_node_in_input_list s c n cur)) = length (dicts s)"
  by (simp add: update_node_in_input_list_def split: option.splits)

lemma update_node_dict_of [simp]:
  "dict_of (update_node_in_input_list s c n cur) x = dict_of s x"
  by (simp add: dict_of_def)

lemma redirect_all_objs [simp]: "objs (redirect_all s cs n cur) = objs s"
  by (induction s cs n cur rule: redirect_all.induct) simp_all

lemma redirect_all_length [simp]:
  "length (dicts (redirect_all s cs n cur)) = length (dicts s)"
  by (induction s cs n cur rule: redirect_all.induct) simp_all

lemma redirect_all_dict_of [simp]: "dict_of (redirect_all s cs n cur) x = dict_of s x"
  by (simp add: dict_of_def)

lemma subst_val_idem [simp]:
  "subst_val cur n (subst_val cur n v) = subst_val cur n v"
  by (simp add: subst_val_def)

lemma redirect_inputs_idem [simp]:
  "redirect_inputs cur n (redirect_inputs cur n nd) = redirect_inputs cur n nd"
  by (simp add: redirect_inputs_def comp_def)



text \<open>A constructor call leaves the attributes of every existing node as they are, up
  to the consumer lists it extends.\<close>

lemma OperationNode_init_preserves:
  assumes "state_of s h = Some nd"
  shows "map_option core
           (state_of (snd (OperationNode_init s c opn un nm ot lo br lbr cons cp arr)) h) =
         Some (core nd)"
proof -
  note h = state_of_Some_dict [OF assms]
  let ?s' = "snd (OperationNode_init s c opn un nm ot lo br lbr cons cp arr)"
  have "dict_of ?s' h = Some (objs s ! h)"
    using h by (simp add: dict_of_def nth_append)
  then show ?thesis
    using h by (simp add: state_of_def OperationNode_init_core_old)
qed


lemma deepcopy_fst [simp]: "fst (deepcopy s r) = length (objs s)"
  by (simp add: deepcopy_def)


text \<open>After the assignment, a node built from the handle \<open>A\<close> has \<open>A\<close> among its
  inputs, and \<open>A\<close> still holds the write operation.\<close>

lemma later_use_reads_write:
  assumes "map_option core (state_of s' A) = Some w"
  shows "new_node_with s' (snd (Matrix_new s' opn [PNode A, x])) (length (objs s')) opn
           [PNode A, x] \<and>
         map_option core (state_of (snd (Matrix_new s' opn [PNode A, x])) A) = Some w"
proof -
  from assms obtain nd where nd: "state_of s' A = Some nd" "core nd = w" by auto
  have "map_option core (state_of (snd (Matrix_new s' opn [PNode A, x])) A) = Some w"
    using OperationNode_init_preserves [OF nd(1)] nd(2)
    by (simp add: Matrix_new_def Matrix_init_def)
  then show ?thesis by (simp add: Matrix_new_node)
qed

subsection \<open>The copy reaches every referenced node\<close>

lemma refs_live:
  assumes "x \<in> set (refs s h)"
  shows "x < length (objs s)"
  using assms by (auto simp: refs_def dict_of_def split: option.splits if_splits)

lemma expand_bound:
  assumes "set vis \<subseteq> {..<length (objs s)}"
  shows "set (expand s vis) \<subseteq> {..<length (objs s)}"
  using assms refs_live by (auto simp: expand_def)

lemma expand_distinct:
  assumes "distinct vis"
  shows "distinct (expand s vis)"
  using assms by (auto simp: expand_def)

lemma expand_fix_or_grow:
  "expand s vis = vis \<or> length vis < length (expand s vis)"
  by (cases "filter (\<lambda>x. x \<notin> set vis) (remdups (concat (map (refs s) vis)))")
     (simp_all add: expand_def)

lemma expand_funpow_inv:
  assumes "distinct v" and "set v \<subseteq> {..<length (objs s)}"
  shows "distinct (((expand s) ^^ k) v) \<and> set (((expand s) ^^ k) v) \<subseteq> {..<length (objs s)}"
  using assms by (induction k) (simp_all add: expand_distinct expand_bound)

lemma expand_funpow_grow:
  "expand s (((expand s) ^^ k) v) = ((expand s) ^^ k) v \<or>
   length v + Suc k \<le> length (expand s (((expand s) ^^ k) v))"
proof (induction k)
  case 0
  then show ?case using expand_fix_or_grow [of s v] by auto
next
  case (Suc k)
  let ?vk = "((expand s) ^^ k) v"
  have step: "((expand s) ^^ Suc k) v = expand s ?vk" by simp
  from Suc show ?case
  proof
    assume "expand s ?vk = ?vk"
    then show ?thesis by (simp add: step)
  next
    assume g: "length v + Suc k \<le> length (expand s ?vk)"
    from expand_fix_or_grow [of s "expand s ?vk"] show ?thesis
    proof
      assume "expand s (expand s ?vk) = expand s ?vk"
      then show ?thesis by (simp add: step)
    next
      assume "length (expand s ?vk) < length (expand s (expand s ?vk))"
      with g show ?thesis by (simp add: step)
    qed
  qed
qed

lemma distinct_bounded_length:
  assumes "distinct (xs :: nat list)" and "set xs \<subseteq> {..<n}"
  shows "length xs \<le> n"
proof -
  have "length xs = card (set xs)" using assms(1) by (simp add: distinct_card)
  also have "\<dots> \<le> card {..<n}" using assms(2) by (intro card_mono) simp_all
  finally show ?thesis by simp
qed

text \<open>\<open>length (objs s)\<close> rounds are enough: the list of reachable objects is a fixed
  point of \<open>expand\<close>.\<close>

lemma reachable_fixpoint: "expand s (reachable s r) = reachable s r"
proof -
  let ?n = "length (objs s)"
  let ?v = "if dict_of s r = None then [] else [r]"
  have v: "distinct ?v" "set ?v \<subseteq> {..<?n}"
    by (auto simp: dict_of_def split: if_splits)
  let ?vn = "((expand s) ^^ ?n) ?v"
  from expand_funpow_inv [OF v, of "Suc ?n"] have
    "distinct (expand s ?vn)" "set (expand s ?vn) \<subseteq> {..<?n}"
    by simp_all
  then have le: "length (expand s ?vn) \<le> ?n" by (rule distinct_bounded_length)
  show ?thesis
  proof (cases "dict_of s r = None")
    case True
    have "((expand s) ^^ k) [] = []" for k
      by (induction k) (simp_all add: expand_def)
    then show ?thesis using True by (simp add: reachable_def expand_def)
  next
    case False
    from expand_funpow_grow [of s ?n ?v] le False
    have "expand s ?vn = ?vn" by auto
    then show ?thesis by (simp add: reachable_def)
  qed
qed

lemma reachable_closed:
  assumes "h \<in> set (reachable s r)" and "x \<in> set (refs s h)"
  shows "x \<in> set (reachable s r)"
proof -
  let ?vis = "reachable s r"
  have "filter (\<lambda>x. x \<notin> set ?vis) (remdups (concat (map (refs s) ?vis))) = []"
    using reachable_fixpoint [of s r] by (simp add: expand_def)
  then have "\<forall>y \<in> set (concat (map (refs s) ?vis)). y \<in> set ?vis"
    by (simp add: filter_empty_conv)
  then show ?thesis using assms by auto
qed

lemma index_of_Some:
  assumes "x \<in> set xs"
  shows "\<exists>i. index_of xs x = Some i"
  using assms by (induction xs) auto

text \<open>Hence every reference that a copied node holds to an existing node is renamed
  to one of the new handles.\<close>

lemma deepcopy_ren_fresh:
  assumes "h \<in> set (reachable s r)" and "x \<in> set (refs s h)"
  shows "length (objs s) \<le> deepcopy_ren s r x"
proof -
  from reachable_closed [OF assms] index_of_Some obtain i where
    "index_of (reachable s r) x = Some i" by blast
  then show ?thesis by (simp add: deepcopy_ren_def ren_map_def)
qed

subsection \<open>The copy is a copy of the whole reachable graph\<close>


















lemma chain_store_length [simp]: "length (objs chain_store) = 3"
  by (simp add: chain_store_def)

lemma chain_store_reachable: "reachable chain_store 1 = [1, 0, 2]"
  by code_simp

lemma chain_store_reachable_Suc [simp]: "reachable chain_store (Suc 0) = [Suc 0, 0, 2]"
  using chain_store_reachable by simp


lemma chain_store_ren [simp]:
  "deepcopy_ren chain_store (Suc 0) 0 = 4" "deepcopy_ren chain_store (Suc 0) (Suc 0) = 3"
  "deepcopy_ren chain_store (Suc 0) 2 = 5"
  by (simp_all add: deepcopy_ren_def ren_map_def)


end
